theory Spec2Isabelle
  imports Main "HOL-Library.Sublist"
begin

section \<open>The chaincode support of the peer (core/chaincode/chaincode\_support.go)\<close>

text \<open>
  The file orchestrates the launch and the invocation of chaincodes. Its collaborators
  (the launcher, the lifecycle, the stream handlers, the protobuf encoding) are Go
  interfaces or imported packages: they are parameters of the model. A Go pointer that
  may be nil is an \<open>option\<close>; a \<open>[]byte\<close> is a list of 8-bit characters; the handler
  registry is the mutable state, passed explicitly, together with a log of the calls the
  file makes to its collaborators. Logging (\<open>chaincodeLogger\<close>) is left out.
\<close>

subsection \<open>Errors (github.com/pkg/errors) and formatting\<close>

type_synonym bytes = string

text \<open>
  An error value is either created from a message (\<open>errors.New\<close>, \<open>errors.Errorf\<close>,
  or any error of a collaborator) or wraps a cause with a message
  (\<open>errors.WithMessage\<close>, \<open>errors.Wrapf\<close>). The stack trace that \<open>Wrapf\<close> and
  \<open>Errorf\<close> record is not part of the error's text and is left out.
\<close>

datatype error = fundamental string | withMessage error string

fun Error :: "error \<Rightarrow> string" where
  "Error (fundamental msg) = msg"
| "Error (withMessage cause msg) = msg @ '': '' @ Error cause"

definition errors_New :: "string \<Rightarrow> error" where
  "errors_New msg = fundamental msg"

definition errors_Errorf :: "string \<Rightarrow> error" where
  "errors_Errorf formatted = fundamental formatted"

definition errors_WithMessage :: "error \<Rightarrow> string \<Rightarrow> error" where
  "errors_WithMessage err msg = withMessage err msg"

definition errors_Wrapf :: "error \<Rightarrow> string \<Rightarrow> error" where
  "errors_Wrapf err formatted = withMessage err formatted"

text \<open>The verb \<open>%d\<close> of package fmt: the decimal digits of an integer.\<close>

definition digit :: "nat \<Rightarrow> char" where
  "digit n = ''0123456789'' ! (n mod 10)"

function fmt_nat :: "nat \<Rightarrow> string" where
  "fmt_nat n = (if n < 10 then [digit n] else fmt_nat (n div 10) @ [digit n])"
  by pat_completeness auto
termination
  by (relation "measure id") auto

declare fmt_nat.simps [simp del]

definition fmt_d :: "int \<Rightarrow> string" where
  "fmt_d i = (if i < 0 then CHR ''-'' # fmt_nat (nat (- i)) else fmt_nat (nat i))"

text \<open>\<open>strings.Contains s substr\<close>: \<open>substr\<close> occurs in \<open>s\<close> as a contiguous run.\<close>

definition strings_Contains :: "string \<Rightarrow> string \<Rightarrow> bool" where
  "strings_Contains s substr = sublist substr s"

subsection \<open>Protocol messages (protos/peer)\<close>

text \<open>
  \<open>pb.ChaincodeMessage_Type\<close> is a Go \<open>int32\<close>; no arithmetic is done on it, so it is
  an \<open>int\<close> here.
\<close>

type_synonym ChaincodeMessage_Type = int

text \<open>
  Modelled from the spec: the constants of the enumeration \<open>pb.ChaincodeMessage_Type\<close>
  are declared in protos/peer, outside this file. The spec names the types INIT,
  TRANSACTION, COMPLETED and ERROR as four different message types; the numbers are
  those of the wire protocol, and only their being different is used.
\<close>

definition ChaincodeMessage_INIT :: ChaincodeMessage_Type where
  "ChaincodeMessage_INIT = 3"

definition ChaincodeMessage_TRANSACTION :: ChaincodeMessage_Type where
  "ChaincodeMessage_TRANSACTION = 5"

definition ChaincodeMessage_COMPLETED :: ChaincodeMessage_Type where
  "ChaincodeMessage_COMPLETED = 6"

definition ChaincodeMessage_ERROR :: ChaincodeMessage_Type where
  "ChaincodeMessage_ERROR = 7"

record ChaincodeEvent =
  ChaincodeId :: string
  TxId :: string
  EventName :: string
  EventPayload :: bytes

text \<open>
  The fields of \<open>pb.ChaincodeMessage\<close> that the file reads or writes. Its \<open>Timestamp\<close>
  and \<open>Proposal\<close> are never touched here (\<open>createCCMessage\<close> leaves them zero).
\<close>

record ChaincodeMessage =
  Type :: ChaincodeMessage_Type
  Payload :: bytes
  Txid :: string
  ChannelId :: string
  ChaincodeEvent :: "ChaincodeEvent option"

record Response =
  Status :: int
  Message :: string
  ResponsePayload :: bytes

record ChaincodeInput =
  Args :: "bytes list"
  Decorations :: "string \<rightharpoonup> bytes"

record ChaincodeID =
  IdPath :: string
  IdName :: string
  IdVersion :: string

record ChaincodeSpec =
  ChaincodeId_of :: "ChaincodeID option"
  Input :: "ChaincodeInput option"

record ChaincodeInvocationSpec =
  InvocationChaincodeSpec :: "ChaincodeSpec option"

record ChaincodeDeploymentSpec =
  DeploymentChaincodeSpec :: "ChaincodeSpec option"
  CodePackage :: bytes

text \<open>
  The generated getters \<open>GetChaincodeSpec\<close> accept a nil receiver and then return nil.
\<close>

definition GetChaincodeSpec :: "ChaincodeInvocationSpec option \<Rightarrow> ChaincodeSpec option" where
  "GetChaincodeSpec spec =
     (case spec of None \<Rightarrow> None | Some sp \<Rightarrow> InvocationChaincodeSpec sp)"

definition GetChaincodeSpec_deployment ::
  "ChaincodeDeploymentSpec option \<Rightarrow> ChaincodeSpec option" where
  "GetChaincodeSpec_deployment spec =
     (case spec of None \<Rightarrow> None | Some sp \<Rightarrow> DeploymentChaincodeSpec sp)"

subsection \<open>Invocation context and container info (core/common/ccprovider)\<close>

text \<open>
  Modelled from the spec: \<open>ccprovider.CCContext\<close> and its method \<open>GetCanonicalName\<close>
  are declared outside this file. The spec calls the canonical name a pure function of
  the unit identity and the sole key of the registry; here the context carries it in a
  field, and nothing is assumed about how it was derived.
\<close>

record CCContext =
  ChainID :: string
  Name :: string
  Version :: string
  TxID :: string
  canonicalName :: string
  ProposalDecorations :: "string \<rightharpoonup> bytes"

definition GetCanonicalName :: "CCContext \<Rightarrow> string" where
  "GetCanonicalName cccid = canonicalName cccid"

text \<open>
  Modelled from the spec: \<open>ccprovider.ChaincodeContainerInfo\<close> is declared outside this
  file; the spec describes it as the descriptor sufficient to start a unit (name, version,
  code package reference, type metadata). The file only writes its \<open>Version\<close>.
\<close>

record ChaincodeContainerInfo =
  InfoName :: string
  InfoVersion :: string
  InfoType :: string
  InfoCodePackage :: bytes

subsection \<open>Collaborators and state\<close>

text \<open>\<open>context.Context\<close> is only handed on to the handler: an opaque token.\<close>

datatype Context = Context nat

text \<open>
  Results that are Go pairs \<open>(value, error)\<close> keep both components where the file
  tests them separately.
\<close>

record Handler =
  Handler_Execute ::
    "Context \<Rightarrow> CCContext \<Rightarrow> ChaincodeMessage \<Rightarrow> int \<Rightarrow> ChaincodeMessage option \<times> error option"

type_synonym HandlerRegistry = "string \<rightharpoonup> Handler"

text \<open>
  The fields of \<open>ChaincodeSupport\<close> that the operations below use. \<open>Launcher.Launch\<close>
  may register a handler: it transforms the registry. \<open>time.Duration\<close> is an integer.
\<close>

record ChaincodeSupport =
  Keepalive :: int
  ExecuteTimeout :: int
  UserRunsCC :: bool
  Launcher_Launch ::
    "ChaincodeContainerInfo option \<Rightarrow> HandlerRegistry \<Rightarrow> error option \<times> HandlerRegistry"
  Lifecycle_ChaincodeContainerInfo ::
    "string \<Rightarrow> string \<Rightarrow> ChaincodeContainerInfo option \<times> error option"

text \<open>
  Functions of imported packages that the file calls: the protobuf encoding
  (\<open>proto.Marshal\<close>, \<open>proto.Unmarshal\<close> into a \<open>pb.Response\<close>),
  \<open>ccprovider.DeploymentSpecToChaincodeContainerInfo\<close> and the method \<open>Name\<close> of
  \<open>pb.ChaincodeSpec\<close>. They are parameters, taken to return.
\<close>

record externals =
  proto_Marshal :: "ChaincodeInput \<Rightarrow> error + bytes"
  proto_Unmarshal :: "bytes \<Rightarrow> error + Response"
  DeploymentSpecToChaincodeContainerInfo ::
    "ChaincodeDeploymentSpec option \<Rightarrow> ChaincodeContainerInfo"
  ChaincodeSpec_Name :: "ChaincodeSpec option \<Rightarrow> string"

text \<open>The calls made to the collaborators, logged in the order they are made.\<close>

datatype call =
    Call_Lifecycle_ChaincodeContainerInfo string string
  | Call_Launcher_Launch "ChaincodeContainerInfo option"
  | Call_Handler_Execute string Context CCContext ChaincodeMessage int

record state =
  registry :: HandlerRegistry
  calls :: "call list"

fun is_Lifecycle_call :: "call \<Rightarrow> bool" where
  "is_Lifecycle_call (Call_Lifecycle_ChaincodeContainerInfo _ _) = True"
| "is_Lifecycle_call _ = False"

fun is_Launch_call :: "call \<Rightarrow> bool" where
  "is_Launch_call (Call_Launcher_Launch _) = True"
| "is_Launch_call _ = False"

definition lifecycle_calls :: "state \<Rightarrow> call list" where
  "lifecycle_calls s = filter is_Lifecycle_call (calls s)"

definition launcher_calls :: "state \<Rightarrow> call list" where
  "launcher_calls s = filter is_Launch_call (calls s)"

text \<open>A Go call either returns or panics (here: on a nil pointer dereference).\<close>

datatype 'a go = Panic | Return 'a

definition call_Launcher_Launch ::
  "ChaincodeSupport \<Rightarrow> ChaincodeContainerInfo option \<Rightarrow> state \<Rightarrow> error option \<times> state" where
  "call_Launcher_Launch cs ccci s =
     (case Launcher_Launch cs ccci (registry s) of
        (err, registry') \<Rightarrow>
          (err, s\<lparr>registry := registry', calls := calls s @ [Call_Launcher_Launch ccci]\<rparr>))"

definition call_Lifecycle_ChaincodeContainerInfo ::
  "ChaincodeSupport \<Rightarrow> string \<Rightarrow> string \<Rightarrow> state \<Rightarrow>
     (ChaincodeContainerInfo option \<times> error option) \<times> state" where
  "call_Lifecycle_ChaincodeContainerInfo cs chainID chaincodeID s =
     (Lifecycle_ChaincodeContainerInfo cs chainID chaincodeID,
      s\<lparr>calls := calls s @ [Call_Lifecycle_ChaincodeContainerInfo chainID chaincodeID]\<rparr>)"

subsection \<open>Launching\<close>

definition LaunchInit ::
  "externals \<Rightarrow> ChaincodeSupport \<Rightarrow> CCContext \<Rightarrow> ChaincodeDeploymentSpec option \<Rightarrow> state \<Rightarrow>
     error option \<times> state" where
  "LaunchInit ex cs cccid spec s =
     (let cname = GetCanonicalName cccid in
      if registry s cname \<noteq> None then (None, s)
      else
        let ccci = DeploymentSpecToChaincodeContainerInfo ex spec;
            ccci = ccci\<lparr>InfoVersion := Version cccid\<rparr>
        in call_Launcher_Launch cs (Some ccci) s)"

definition Launch ::
  "externals \<Rightarrow> ChaincodeSupport \<Rightarrow> CCContext \<Rightarrow> ChaincodeInvocationSpec option \<Rightarrow> state \<Rightarrow>
     error option \<times> state" where
  "Launch ex cs cccid spec s =
     (let cname = GetCanonicalName cccid in
      if registry s cname \<noteq> None then (None, s)
      else
        let chaincodeName = ChaincodeSpec_Name ex (GetChaincodeSpec spec) in
        case call_Lifecycle_ChaincodeContainerInfo cs (ChainID cccid) chaincodeName s of
          ((ccci, Some err), s1) \<Rightarrow>
            (Some (errors_Wrapf err
               (''[channel '' @ ChainID cccid @ ''] failed to get chaincode container info for ''
                  @ chaincodeName)), s1)
        | ((ccci, None), s1) \<Rightarrow> call_Launcher_Launch cs ccci s1)"

subsection \<open>Building the request and interpreting the response\<close>

definition createCCMessage ::
  "externals \<Rightarrow> ChaincodeMessage_Type \<Rightarrow> string \<Rightarrow> string \<Rightarrow> ChaincodeInput \<Rightarrow>
     error + ChaincodeMessage" where
  "createCCMessage ex messageType cid txid cMsg =
     (case proto_Marshal ex cMsg of
        Inl err \<Rightarrow> Inl err
      | Inr payload \<Rightarrow>
          Inr \<lparr>Type = messageType, Payload = payload, Txid = txid, ChannelId = cid,
               ChaincodeEvent = None\<rparr>)"

text \<open>
  The event of the response is stamped in place, through the pointer, before the type of
  the response is looked at; the event returned is that same, stamped, event.
\<close>

definition processChaincodeExecutionResult ::
  "externals \<Rightarrow> CCContext \<Rightarrow> ChaincodeMessage option \<Rightarrow> error option \<Rightarrow>
     Response option \<times> ChaincodeEvent option \<times> error option" where
  "processChaincodeExecutionResult ex cccid resp err =
     (case err of
        Some e \<Rightarrow>
          (None, None, Some (errors_Wrapf e (''failed to execute transaction '' @ TxID cccid)))
      | None \<Rightarrow>
     (case resp of
        None \<Rightarrow>
          (None, None, Some (errors_Errorf (''nil response from transaction '' @ TxID cccid)))
      | Some resp0 \<Rightarrow>
          let resp1 =
                (case ChaincodeEvent resp0 of
                   None \<Rightarrow> resp0
                 | Some ev \<Rightarrow>
                     resp0\<lparr>ChaincodeEvent :=
                       Some (ev\<lparr>ChaincodeId := Name cccid, TxId := TxID cccid\<rparr>)\<rparr>)
          in
          if Type resp1 = ChaincodeMessage_COMPLETED then
            (case proto_Unmarshal ex (Payload resp1) of
               Inl e \<Rightarrow>
                 (None, None,
                  Some (errors_Wrapf e
                    (''failed to unmarshal response for transaction '' @ TxID cccid)))
             | Inr res \<Rightarrow> (Some res, ChaincodeEvent resp1, None))
          else if Type resp1 = ChaincodeMessage_ERROR then
            (None, ChaincodeEvent resp1,
             Some (errors_Errorf (''transaction returned with failure: '' @ Payload resp1)))
          else
            (None, None,
             Some (errors_Errorf
               (''unexpected response type '' @ fmt_d (Type resp1) @ '' for transaction ''
                  @ TxID cccid)))))"

subsection \<open>Invoking\<close>

definition execute ::
  "ChaincodeSupport \<Rightarrow> Context \<Rightarrow> CCContext \<Rightarrow> ChaincodeMessage \<Rightarrow> state \<Rightarrow>
     (ChaincodeMessage option \<times> error option) \<times> state" where
  "execute cs ctxt cccid msg s =
     (let cname = GetCanonicalName cccid in
      case registry s cname of
        None \<Rightarrow> ((None, Some (errors_Errorf (''unable to invoke chaincode '' @ cname))), s)
      | Some handler \<Rightarrow>
          let s1 = s\<lparr>calls := calls s @
                      [Call_Handler_Execute cname ctxt cccid msg (ExecuteTimeout cs)]\<rparr> in
          (case Handler_Execute handler ctxt cccid msg (ExecuteTimeout cs) of
             (ccresp, Some err) \<Rightarrow> ((None, Some (errors_WithMessage err ''error sending'')), s1)
           | (ccresp, None) \<Rightarrow> ((ccresp, None), s1)))"

text \<open>
  \<open>input.Decorations = ...\<close> writes through the pointer \<open>chaincodeSpec.Input\<close>: it
  panics when that pointer is nil. The write also changes the input inside the caller's
  spec; the spec is not handed back here, the message built from the input is.
\<close>

definition InvokeInit ::
  "externals \<Rightarrow> ChaincodeSupport \<Rightarrow> Context \<Rightarrow> CCContext \<Rightarrow> ChaincodeDeploymentSpec option \<Rightarrow>
     state \<Rightarrow> (ChaincodeMessage option \<times> error option) go \<times> state" where
  "InvokeInit ex cs ctxt cccid spec s =
     (let cctyp = ChaincodeMessage_INIT in
      case LaunchInit ex cs cccid spec s of
        (Some err, s1) \<Rightarrow> (Return (None, Some err), s1)
      | (None, s1) \<Rightarrow>
     (case GetChaincodeSpec_deployment spec of
        None \<Rightarrow> (Return (None, Some (errors_New ''chaincode spec is nil'')), s1)
      | Some chaincodeSpec \<Rightarrow>
     (case Input chaincodeSpec of
        None \<Rightarrow> (Panic, s1)
      | Some input0 \<Rightarrow>
          let input = input0\<lparr>Decorations := ProposalDecorations cccid\<rparr> in
          (case createCCMessage ex cctyp (ChainID cccid) (TxID cccid) input of
             Inl err \<Rightarrow>
               (Return (None,
                  Some (errors_WithMessage err ''failed to create chaincode message'')), s1)
           | Inr ccMsg \<Rightarrow>
               (case execute cs ctxt cccid ccMsg s1 of (r, s2) \<Rightarrow> (Return r, s2))))))"

definition Invoke ::
  "externals \<Rightarrow> ChaincodeSupport \<Rightarrow> Context \<Rightarrow> CCContext \<Rightarrow> ChaincodeInvocationSpec option \<Rightarrow>
     state \<Rightarrow> (ChaincodeMessage option \<times> error option) go \<times> state" where
  "Invoke ex cs ctxt cccid spec s =
     (let cctyp = ChaincodeMessage_TRANSACTION in
      case GetChaincodeSpec spec of
        None \<Rightarrow> (Return (None, Some (errors_New ''chaincode spec is nil'')), s)
      | Some chaincodeSpec \<Rightarrow>
     (case Launch ex cs cccid spec s of
        (Some err, s1) \<Rightarrow> (Return (None, Some err), s1)
      | (None, s1) \<Rightarrow>
     (case Input chaincodeSpec of
        None \<Rightarrow> (Panic, s1)
      | Some input0 \<Rightarrow>
          let input = input0\<lparr>Decorations := ProposalDecorations cccid\<rparr> in
          (case createCCMessage ex cctyp (ChainID cccid) (TxID cccid) input of
             Inl err \<Rightarrow>
               (Return (None,
                  Some (errors_WithMessage err ''failed to create chaincode message'')), s1)
           | Inr ccMsg \<Rightarrow>
               (case execute cs ctxt cccid ccMsg s1 of (r, s2) \<Rightarrow> (Return r, s2))))))"

definition ExecuteInit ::
  "externals \<Rightarrow> ChaincodeSupport \<Rightarrow> Context \<Rightarrow> CCContext \<Rightarrow> ChaincodeDeploymentSpec option \<Rightarrow>
     state \<Rightarrow> (Response option \<times> ChaincodeEvent option \<times> error option) go \<times> state" where
  "ExecuteInit ex cs ctxt cccid spec s =
     (case InvokeInit ex cs ctxt cccid spec s of
        (Panic, s1) \<Rightarrow> (Panic, s1)
      | (Return (resp, err), s1) \<Rightarrow>
          (Return (processChaincodeExecutionResult ex cccid resp err), s1))"

definition Execute ::
  "externals \<Rightarrow> ChaincodeSupport \<Rightarrow> Context \<Rightarrow> CCContext \<Rightarrow> ChaincodeInvocationSpec option \<Rightarrow>
     state \<Rightarrow> (Response option \<times> ChaincodeEvent option \<times> error option) go \<times> state" where
  "Execute ex cs ctxt cccid spec s =
     (case Invoke ex cs ctxt cccid spec s of
        (Panic, s1) \<Rightarrow> (Panic, s1)
      | (Return (resp, err), s1) \<Rightarrow>
          (Return (processChaincodeExecutionResult ex cccid resp err), s1))"

subsection \<open>Test doubles\<close>

text \<open>
  Concrete collaborators, used to run the operations on concrete inputs: a stub handler
  that answers every request with a fixed reply, a launcher that registers a given
  handler under \<open>name:version\<close>, a launcher that fails, a lifecycle that knows one
  chaincode, and a toy encoding.
\<close>

definition stub_handler :: "ChaincodeMessage option \<Rightarrow> error option \<Rightarrow> Handler" where
  "stub_handler resp err = \<lparr>Handler_Execute = (\<lambda>ctxt cccid msg timeout. (resp, err))\<rparr>"

definition registering_launcher ::
  "Handler \<Rightarrow> ChaincodeContainerInfo option \<Rightarrow> HandlerRegistry \<Rightarrow> error option \<times> HandlerRegistry" where
  "registering_launcher h ccci reg =
     (case ccci of
        None \<Rightarrow> (Some (fundamental ''no container info''), reg)
      | Some i \<Rightarrow> (None, reg(InfoName i @ '':'' @ InfoVersion i \<mapsto> h)))"

definition failing_launcher ::
  "ChaincodeContainerInfo option \<Rightarrow> HandlerRegistry \<Rightarrow> error option \<times> HandlerRegistry" where
  "failing_launcher ccci reg = (Some (fundamental ''start failed''), reg)"

definition stub_lifecycle :: "string \<Rightarrow> string \<Rightarrow> ChaincodeContainerInfo option \<times> error option" where
  "stub_lifecycle chainID chaincodeID =
     (if chaincodeID = ''token-contract''
      then (Some \<lparr>InfoName = chaincodeID, InfoVersion = ''1'', InfoType = ''GOLANG'',
                  InfoCodePackage = []\<rparr>, None)
      else (None, Some (fundamental ''chaincode not found'')))"

definition stub_cs ::
  "(ChaincodeContainerInfo option \<Rightarrow> HandlerRegistry \<Rightarrow> error option \<times> HandlerRegistry) \<Rightarrow>
     ChaincodeSupport" where
  "stub_cs launcher =
     \<lparr>Keepalive = 0, ExecuteTimeout = 30, UserRunsCC = False,
      Launcher_Launch = launcher, Lifecycle_ChaincodeContainerInfo = stub_lifecycle\<rparr>"

definition stub_externals :: externals where
  "stub_externals =
     \<lparr>proto_Marshal =
        (\<lambda>i. Inr (concat (Args i) @
           (case Decorations i ''d'' of None \<Rightarrow> [] | Some v \<Rightarrow> v))),
      proto_Unmarshal =
        (\<lambda>b. if b = [] then Inl (fundamental ''unexpected EOF'')
              else Inr \<lparr>Status = 200, Message = ''OK'', ResponsePayload = b\<rparr>),
      DeploymentSpecToChaincodeContainerInfo =
        (\<lambda>spec.
           case GetChaincodeSpec_deployment spec of
             None \<Rightarrow> \<lparr>InfoName = [], InfoVersion = [], InfoType = [], InfoCodePackage = []\<rparr>
           | Some sp \<Rightarrow>
               (case ChaincodeId_of sp of
                  None \<Rightarrow> \<lparr>InfoName = [], InfoVersion = [], InfoType = [], InfoCodePackage = []\<rparr>
                | Some i \<Rightarrow>
                    \<lparr>InfoName = IdName i, InfoVersion = IdVersion i, InfoType = [],
                     InfoCodePackage = []\<rparr>)),
      ChaincodeSpec_Name =
        (\<lambda>sp. case sp of
                 None \<Rightarrow> []
               | Some sp \<Rightarrow> (case ChaincodeId_of sp of None \<Rightarrow> [] | Some i \<Rightarrow> IdName i))\<rparr>"

definition token_cccid :: CCContext where
  "token_cccid =
     \<lparr>ChainID = ''ch1'', Name = ''token-contract'', Version = ''1'', TxID = ''t1'',
      canonicalName = ''token-contract:1'', ProposalDecorations = [''d'' \<mapsto> ''!'']\<rparr>"

definition token_spec :: ChaincodeSpec where
  "token_spec =
     \<lparr>ChaincodeId_of = Some \<lparr>IdPath = ''p'', IdName = ''token-contract'', IdVersion = ''0''\<rparr>,
      Input = Some \<lparr>Args = [''transfer''], Decorations = Map.empty\<rparr>\<rparr>"

definition token_event :: ChaincodeEvent where
  "token_event =
     \<lparr>ChaincodeId = [], TxId = [], EventName = ''transferred'', EventPayload = ''e''\<rparr>"

definition reply :: "ChaincodeMessage_Type \<Rightarrow> bytes \<Rightarrow> ChaincodeEvent option \<Rightarrow> ChaincodeMessage" where
  "reply t p ev = \<lparr>Type = t, Payload = p, Txid = ''t1'', ChannelId = ''ch1'', ChaincodeEvent = ev\<rparr>"

definition empty_state :: state where
  "empty_state = \<lparr>registry = Map.empty, calls = []\<rparr>"

definition running_state :: "Handler \<Rightarrow> state" where
  "running_state h = \<lparr>registry = [''token-contract:1'' \<mapsto> h], calls = []\<rparr>"

section \<open>Facts about the operations\<close>

lemmas msg_types =
  ChaincodeMessage_INIT_def ChaincodeMessage_TRANSACTION_def
  ChaincodeMessage_COMPLETED_def ChaincodeMessage_ERROR_def

lemmas errs = errors_New_def errors_Errorf_def errors_WithMessage_def errors_Wrapf_def

lemmas doubles =
  stub_handler_def registering_launcher_def failing_launcher_def stub_lifecycle_def
  stub_cs_def stub_externals_def token_cccid_def token_spec_def token_event_def reply_def
  empty_state_def running_state_def

lemmas ops =
  Execute_def ExecuteInit_def Invoke_def InvokeInit_def execute_def Launch_def LaunchInit_def
  createCCMessage_def processChaincodeExecutionResult_def call_Launcher_Launch_def
  call_Lifecycle_ChaincodeContainerInfo_def GetCanonicalName_def GetChaincodeSpec_def
  GetChaincodeSpec_deployment_def

subsection \<open>The branches of the result interpretation\<close>

lemma pcer_invoke_error:
  "processChaincodeExecutionResult ex cccid resp (Some e) =
     (None, None, Some (errors_Wrapf e (''failed to execute transaction '' @ TxID cccid)))"
  by (simp add: processChaincodeExecutionResult_def)

lemma pcer_nil_response:
  "processChaincodeExecutionResult ex cccid None None =
     (None, None, Some (errors_Errorf (''nil response from transaction '' @ TxID cccid)))"
  by (simp add: processChaincodeExecutionResult_def)

lemma pcer_completed:
  "Type resp = ChaincodeMessage_COMPLETED \<Longrightarrow>
   processChaincodeExecutionResult ex cccid (Some resp) None =
     (case proto_Unmarshal ex (Payload resp) of
        Inl e \<Rightarrow> (None, None,
          Some (errors_Wrapf e (''failed to unmarshal response for transaction '' @ TxID cccid)))
      | Inr res \<Rightarrow>
          (Some res,
           map_option (\<lambda>ev. ev\<lparr>ChaincodeId := Name cccid, TxId := TxID cccid\<rparr>)
             (ChaincodeEvent resp),
           None))"
  by (cases "ChaincodeEvent resp")
     (simp_all add: processChaincodeExecutionResult_def split: sum.splits)

lemma pcer_error:
  "Type resp = ChaincodeMessage_ERROR \<Longrightarrow>
   processChaincodeExecutionResult ex cccid (Some resp) None =
     (None,
      map_option (\<lambda>ev. ev\<lparr>ChaincodeId := Name cccid, TxId := TxID cccid\<rparr>) (ChaincodeEvent resp),
      Some (errors_Errorf (''transaction returned with failure: '' @ Payload resp)))"
  by (cases "ChaincodeEvent resp")
     (simp_all add: processChaincodeExecutionResult_def msg_types)

lemma pcer_unexpected:
  "Type resp \<noteq> ChaincodeMessage_COMPLETED \<Longrightarrow> Type resp \<noteq> ChaincodeMessage_ERROR \<Longrightarrow>
   processChaincodeExecutionResult ex cccid (Some resp) None =
     (None, None,
      Some (errors_Errorf
        (''unexpected response type '' @ fmt_d (Type resp) @ '' for transaction '' @ TxID cccid)))"
  by (cases "ChaincodeEvent resp")
     (simp_all add: processChaincodeExecutionResult_def)

lemma Execute_of_Invoke:
  "Invoke ex cs ctxt cccid spec s = (Return (resp, err), s') \<Longrightarrow>
   Execute ex cs ctxt cccid spec s =
     (Return (processChaincodeExecutionResult ex cccid resp err), s')"
  by (simp add: Execute_def)

lemma ExecuteInit_of_InvokeInit:
  "InvokeInit ex cs ctxt cccid spec s = (Return (resp, err), s') \<Longrightarrow>
   ExecuteInit ex cs ctxt cccid spec s =
     (Return (processChaincodeExecutionResult ex cccid resp err), s')"
  by (simp add: ExecuteInit_def)

lemma execute_returns_handler_message:
  "execute cs ctxt cccid msg s = ((Some m, None), s') \<Longrightarrow>
   \<exists>h. registry s' (GetCanonicalName cccid) = Some h \<and>
       Handler_Execute h ctxt cccid msg (ExecuteTimeout cs) = (Some m, None)"
  by (auto simp add: execute_def Let_def split: option.splits prod.splits)

lemma Invoke_returns_handler_message:
  "Invoke ex cs ctxt cccid spec s = (Return (Some m, None), s') \<Longrightarrow>
   \<exists>h msg. registry s' (GetCanonicalName cccid) = Some h \<and>
       Handler_Execute h ctxt cccid msg (ExecuteTimeout cs) = (Some m, None)"
  unfolding Invoke_def Let_def
  by (auto split: option.splits prod.splits sum.splits dest!: execute_returns_handler_message)

lemma InvokeInit_returns_handler_message:
  "InvokeInit ex cs ctxt cccid spec s = (Return (Some m, None), s') \<Longrightarrow>
   \<exists>h msg. registry s' (GetCanonicalName cccid) = Some h \<and>
       Handler_Execute h ctxt cccid msg (ExecuteTimeout cs) = (Some m, None)"
  unfolding InvokeInit_def Let_def
  by (auto split: option.splits prod.splits sum.splits dest!: execute_returns_handler_message)


subsection \<open>Runs against a registered stub handler\<close>

lemma run_Invoke_running:
  "Invoke stub_externals (stub_cs failing_launcher) (Context 0) token_cccid
     (Some \<lparr>InvocationChaincodeSpec = Some token_spec\<rparr>) (running_state (stub_handler r e)) =
   (case e of
      Some err \<Rightarrow> Return (None, Some (errors_WithMessage err ''error sending''))
    | None \<Rightarrow> Return (r, None),
    \<lparr>registry = [''token-contract:1'' \<mapsto> stub_handler r e],
     calls = [Call_Handler_Execute ''token-contract:1'' (Context 0) token_cccid
        \<lparr>Type = ChaincodeMessage_TRANSACTION, Payload = ''transfer!'', Txid = ''t1'',
         ChannelId = ''ch1'', ChaincodeEvent = None\<rparr> 30]\<rparr>)"
  by (cases e) (simp_all add: ops doubles Let_def)

lemma run_InvokeInit_running:
  "InvokeInit stub_externals (stub_cs failing_launcher) (Context 0) token_cccid
     (Some \<lparr>DeploymentChaincodeSpec = Some token_spec, CodePackage = []\<rparr>)
     (running_state (stub_handler r e)) =
   (case e of
      Some err \<Rightarrow> Return (None, Some (errors_WithMessage err ''error sending''))
    | None \<Rightarrow> Return (r, None),
    \<lparr>registry = [''token-contract:1'' \<mapsto> stub_handler r e],
     calls = [Call_Handler_Execute ''token-contract:1'' (Context 0) token_cccid
        \<lparr>Type = ChaincodeMessage_INIT, Payload = ''transfer!'', Txid = ''t1'',
         ChannelId = ''ch1'', ChaincodeEvent = None\<rparr> 30]\<rparr>)"
  by (cases e) (simp_all add: ops doubles Let_def)

section \<open>The claims\<close>

subsection \<open>C1: a COMPLETED response\<close>

text \<open>
  C1. A COMPLETED response whose payload unmarshals is returned decoded, with no error,
  by \<open>processChaincodeExecutionResult\<close> and so by \<open>Execute\<close> and \<open>ExecuteInit\<close>; an
  event carried by the message comes back with \<open>ChaincodeId\<close> set to the name of the
  context and \<open>TxId\<close> to its transaction id, its other fields unchanged. The stamping is
  done there only: a message that \<open>Invoke\<close> or \<open>InvokeInit\<close> returns is, unchanged, the
  message that the registered handler returned.
\<close>

theorem completed_response_is_decoded_and_stamped:
  assumes "Type resp = ChaincodeMessage_COMPLETED"
      and "proto_Unmarshal ex (Payload resp) = Inr res"
  shows
    "processChaincodeExecutionResult ex cccid (Some resp) None =
       (Some res,
        map_option (\<lambda>ev. ev\<lparr>ChaincodeId := Name cccid, TxId := TxID cccid\<rparr>)
          (ChaincodeEvent resp),
        None)
     \<and> (\<forall>cs ctxt spec s s'.
          Invoke ex cs ctxt cccid spec s = (Return (Some resp, None), s') \<longrightarrow>
          Execute ex cs ctxt cccid spec s =
            (Return (Some res,
               map_option (\<lambda>ev. ev\<lparr>ChaincodeId := Name cccid, TxId := TxID cccid\<rparr>)
                 (ChaincodeEvent resp),
               None), s'))
     \<and> (\<forall>cs ctxt spec s s'.
          InvokeInit ex cs ctxt cccid spec s = (Return (Some resp, None), s') \<longrightarrow>
          ExecuteInit ex cs ctxt cccid spec s =
            (Return (Some res,
               map_option (\<lambda>ev. ev\<lparr>ChaincodeId := Name cccid, TxId := TxID cccid\<rparr>)
                 (ChaincodeEvent resp),
               None), s'))
     \<and> (\<forall>cs ctxt spec s s'.
          Invoke ex cs ctxt cccid spec s = (Return (Some resp, None), s') \<longrightarrow>
          (\<exists>h msg. registry s' (GetCanonicalName cccid) = Some h \<and>
             Handler_Execute h ctxt cccid msg (ExecuteTimeout cs) = (Some resp, None)))
     \<and> (\<forall>cs ctxt spec s s'.
          InvokeInit ex cs ctxt cccid spec s = (Return (Some resp, None), s') \<longrightarrow>
          (\<exists>h msg. registry s' (GetCanonicalName cccid) = Some h \<and>
             Handler_Execute h ctxt cccid msg (ExecuteTimeout cs) = (Some resp, None)))"
proof -
  have p: "processChaincodeExecutionResult ex cccid (Some resp) None =
       (Some res,
        map_option (\<lambda>ev. ev\<lparr>ChaincodeId := Name cccid, TxId := TxID cccid\<rparr>)
          (ChaincodeEvent resp),
        None)"
    using assms by (simp add: pcer_completed)
  show ?thesis
  proof (intro conjI allI impI)
    show "processChaincodeExecutionResult ex cccid (Some resp) None =
       (Some res,
        map_option (\<lambda>ev. ev\<lparr>ChaincodeId := Name cccid, TxId := TxID cccid\<rparr>)
          (ChaincodeEvent resp),
        None)"
      by (rule p)
  qed (simp_all add: p Execute_of_Invoke ExecuteInit_of_InvokeInit,
       (blast dest: Invoke_returns_handler_message InvokeInit_returns_handler_message)+)
qed

theorem completed_response_is_decoded_and_stamped_witness:
  "Execute stub_externals (stub_cs failing_launcher) (Context 0) token_cccid
     (Some \<lparr>InvocationChaincodeSpec = Some token_spec\<rparr>)
     (running_state (stub_handler
        (Some (reply ChaincodeMessage_COMPLETED ''ok'' (Some token_event))) None)) =
   (Return (Some \<lparr>Status = 200, Message = ''OK'', ResponsePayload = ''ok''\<rparr>,
            Some \<lparr>ChaincodeId = ''token-contract'', TxId = ''t1'',
                  EventName = ''transferred'', EventPayload = ''e''\<rparr>,
            None),
    \<lparr>registry = [''token-contract:1'' \<mapsto> stub_handler
        (Some (reply ChaincodeMessage_COMPLETED ''ok'' (Some token_event))) None],
     calls = [Call_Handler_Execute ''token-contract:1'' (Context 0) token_cccid
        \<lparr>Type = ChaincodeMessage_TRANSACTION, Payload = ''transfer!'', Txid = ''t1'',
         ChannelId = ''ch1'', ChaincodeEvent = None\<rparr> 30]\<rparr>)"
proof -
  let ?resp = "reply ChaincodeMessage_COMPLETED ''ok'' (Some token_event)"
  have t: "Type ?resp = ChaincodeMessage_COMPLETED"
    by (simp add: reply_def)
  have u: "proto_Unmarshal stub_externals (Payload ?resp) =
             Inr \<lparr>Status = 200, Message = ''OK'', ResponsePayload = ''ok''\<rparr>"
    by (simp add: reply_def stub_externals_def)
  have i: "Invoke stub_externals (stub_cs failing_launcher) (Context 0) token_cccid
     (Some \<lparr>InvocationChaincodeSpec = Some token_spec\<rparr>)
     (running_state (stub_handler (Some ?resp) None)) =
     (Return (Some ?resp, None),
      \<lparr>registry = [''token-contract:1'' \<mapsto> stub_handler (Some ?resp) None],
       calls = [Call_Handler_Execute ''token-contract:1'' (Context 0) token_cccid
        \<lparr>Type = ChaincodeMessage_TRANSACTION, Payload = ''transfer!'', Txid = ''t1'',
         ChannelId = ''ch1'', ChaincodeEvent = None\<rparr> 30]\<rparr>)"
    by (simp add: run_Invoke_running)
  from completed_response_is_decoded_and_stamped [OF t u, of token_cccid] i
  show ?thesis
    by (simp add: reply_def token_event_def token_cccid_def)
qed

lemma contains_append: "strings_Contains (p @ x) x"
  by (simp add: strings_Contains_def)

subsection \<open>C2: an ERROR response\<close>

text \<open>
  C2. For a response of type ERROR, \<open>processChaincodeExecutionResult\<close>, and so
  \<open>Execute\<close> and \<open>ExecuteInit\<close>, return no response and an error whose text is
  \<open>transaction returned with failure: \<close> followed by the raw payload: the text contains
  the payload, and the call does not report success.
\<close>

theorem error_response_is_remote_failure:
  assumes "Type resp = ChaincodeMessage_ERROR"
  shows
    "(\<exists>ev e. processChaincodeExecutionResult ex cccid (Some resp) None = (None, ev, Some e) \<and>
        Error e = ''transaction returned with failure: '' @ Payload resp \<and>
        strings_Contains (Error e) (Payload resp))
     \<and> (\<forall>cs ctxt spec s s'.
          Invoke ex cs ctxt cccid spec s = (Return (Some resp, None), s') \<longrightarrow>
          (\<exists>ev e. Execute ex cs ctxt cccid spec s = (Return (None, ev, Some e), s') \<and>
             Error e = ''transaction returned with failure: '' @ Payload resp \<and>
             strings_Contains (Error e) (Payload resp)))
     \<and> (\<forall>cs ctxt spec s s'.
          InvokeInit ex cs ctxt cccid spec s = (Return (Some resp, None), s') \<longrightarrow>
          (\<exists>ev e. ExecuteInit ex cs ctxt cccid spec s = (Return (None, ev, Some e), s') \<and>
             Error e = ''transaction returned with failure: '' @ Payload resp \<and>
             strings_Contains (Error e) (Payload resp)))"
proof -
  let ?e = "errors_Errorf (''transaction returned with failure: '' @ Payload resp)"
  have e: "Error ?e = ''transaction returned with failure: '' @ Payload resp"
    by (simp add: errors_Errorf_def)
  have c: "strings_Contains (Error ?e) (Payload resp)"
    unfolding e by (rule contains_append)
  note p = pcer_error [OF assms, of ex cccid]
  show ?thesis
  proof (intro conjI allI impI)
    show "\<exists>ev e. processChaincodeExecutionResult ex cccid (Some resp) None = (None, ev, Some e) \<and>
        Error e = ''transaction returned with failure: '' @ Payload resp \<and>
        strings_Contains (Error e) (Payload resp)"
      using p e c by blast
  next
    fix cs ctxt spec s s'
    assume "Invoke ex cs ctxt cccid spec s = (Return (Some resp, None), s')"
    then have "Execute ex cs ctxt cccid spec s =
        (Return (processChaincodeExecutionResult ex cccid (Some resp) None), s')"
      by (rule Execute_of_Invoke)
    then show "\<exists>ev e. Execute ex cs ctxt cccid spec s = (Return (None, ev, Some e), s') \<and>
             Error e = ''transaction returned with failure: '' @ Payload resp \<and>
             strings_Contains (Error e) (Payload resp)"
      using p e c by simp
  next
    fix cs ctxt spec s s'
    assume "InvokeInit ex cs ctxt cccid spec s = (Return (Some resp, None), s')"
    then have "ExecuteInit ex cs ctxt cccid spec s =
        (Return (processChaincodeExecutionResult ex cccid (Some resp) None), s')"
      by (rule ExecuteInit_of_InvokeInit)
    then show "\<exists>ev e. ExecuteInit ex cs ctxt cccid spec s = (Return (None, ev, Some e), s') \<and>
             Error e = ''transaction returned with failure: '' @ Payload resp \<and>
             strings_Contains (Error e) (Payload resp)"
      using p e c by simp
  qed
qed

theorem error_response_is_remote_failure_witness:
  "\<exists>ev e.
     Execute stub_externals (stub_cs failing_launcher) (Context 0) token_cccid
       (Some \<lparr>InvocationChaincodeSpec = Some token_spec\<rparr>)
       (running_state (stub_handler
          (Some (reply ChaincodeMessage_ERROR ''insufficient funds'' None)) None)) =
     (Return (None, ev, Some e),
      \<lparr>registry = [''token-contract:1'' \<mapsto> stub_handler
          (Some (reply ChaincodeMessage_ERROR ''insufficient funds'' None)) None],
       calls = [Call_Handler_Execute ''token-contract:1'' (Context 0) token_cccid
          \<lparr>Type = ChaincodeMessage_TRANSACTION, Payload = ''transfer!'', Txid = ''t1'',
           ChannelId = ''ch1'', ChaincodeEvent = None\<rparr> 30]\<rparr>) \<and>
     Error e = ''transaction returned with failure: insufficient funds'' \<and>
     strings_Contains (Error e) ''insufficient funds''"
proof -
  let ?resp = "reply ChaincodeMessage_ERROR ''insufficient funds'' None"
  have t: "Type ?resp = ChaincodeMessage_ERROR"
    by (simp add: reply_def)
  have i: "Invoke stub_externals (stub_cs failing_launcher) (Context 0) token_cccid
     (Some \<lparr>InvocationChaincodeSpec = Some token_spec\<rparr>)
     (running_state (stub_handler (Some ?resp) None)) =
     (Return (Some ?resp, None),
      \<lparr>registry = [''token-contract:1'' \<mapsto> stub_handler (Some ?resp) None],
       calls = [Call_Handler_Execute ''token-contract:1'' (Context 0) token_cccid
        \<lparr>Type = ChaincodeMessage_TRANSACTION, Payload = ''transfer!'', Txid = ''t1'',
         ChannelId = ''ch1'', ChaincodeEvent = None\<rparr> 30]\<rparr>)"
    by (simp add: run_Invoke_running)
  have p: "Payload ?resp = ''insufficient funds''"
    by (simp add: reply_def)
  from error_response_is_remote_failure [OF t, of stub_externals token_cccid] i
  show ?thesis
    unfolding p by simp
qed

subsection \<open>C9: the event of an ERROR response\<close>

text \<open>
  C9. When a response of type ERROR carries an event, \<open>Execute\<close> and \<open>ExecuteInit\<close>
  return that event, stamped with the name of the context and its transaction id, together
  with the error: the stamping precedes the inspection of the type, and the failure
  branch hands the event on.
\<close>

theorem error_response_keeps_stamped_event:
  assumes "Type resp = ChaincodeMessage_ERROR"
      and "ChaincodeEvent resp = Some ev"
  shows
    "processChaincodeExecutionResult ex cccid (Some resp) None =
       (None, Some (ev\<lparr>ChaincodeId := Name cccid, TxId := TxID cccid\<rparr>),
        Some (errors_Errorf (''transaction returned with failure: '' @ Payload resp)))
     \<and> (\<forall>cs ctxt spec s s'.
          Invoke ex cs ctxt cccid spec s = (Return (Some resp, None), s') \<longrightarrow>
          Execute ex cs ctxt cccid spec s =
            (Return (None, Some (ev\<lparr>ChaincodeId := Name cccid, TxId := TxID cccid\<rparr>),
               Some (errors_Errorf (''transaction returned with failure: '' @ Payload resp))),
             s'))
     \<and> (\<forall>cs ctxt spec s s'.
          InvokeInit ex cs ctxt cccid spec s = (Return (Some resp, None), s') \<longrightarrow>
          ExecuteInit ex cs ctxt cccid spec s =
            (Return (None, Some (ev\<lparr>ChaincodeId := Name cccid, TxId := TxID cccid\<rparr>),
               Some (errors_Errorf (''transaction returned with failure: '' @ Payload resp))),
             s'))"
proof -
  have p: "processChaincodeExecutionResult ex cccid (Some resp) None =
       (None, Some (ev\<lparr>ChaincodeId := Name cccid, TxId := TxID cccid\<rparr>),
        Some (errors_Errorf (''transaction returned with failure: '' @ Payload resp)))"
    using assms by (simp add: pcer_error)
  show ?thesis
    by (intro conjI allI impI) (simp_all add: p Execute_of_Invoke ExecuteInit_of_InvokeInit)
qed

theorem error_response_keeps_stamped_event_witness:
  "ExecuteInit stub_externals (stub_cs failing_launcher) (Context 0) token_cccid
     (Some \<lparr>DeploymentChaincodeSpec = Some token_spec, CodePackage = []\<rparr>)
     (running_state (stub_handler
        (Some (reply ChaincodeMessage_ERROR ''insufficient funds'' (Some token_event))) None)) =
   (Return (None,
            Some \<lparr>ChaincodeId = ''token-contract'', TxId = ''t1'',
                  EventName = ''transferred'', EventPayload = ''e''\<rparr>,
            Some (fundamental ''transaction returned with failure: insufficient funds'')),
    \<lparr>registry = [''token-contract:1'' \<mapsto> stub_handler
        (Some (reply ChaincodeMessage_ERROR ''insufficient funds'' (Some token_event))) None],
     calls = [Call_Handler_Execute ''token-contract:1'' (Context 0) token_cccid
        \<lparr>Type = ChaincodeMessage_INIT, Payload = ''transfer!'', Txid = ''t1'',
         ChannelId = ''ch1'', ChaincodeEvent = None\<rparr> 30]\<rparr>)"
proof -
  let ?resp = "reply ChaincodeMessage_ERROR ''insufficient funds'' (Some token_event)"
  have t: "Type ?resp = ChaincodeMessage_ERROR"
    by (simp add: reply_def)
  have v: "ChaincodeEvent ?resp = Some token_event"
    by (simp add: reply_def)
  have i: "InvokeInit stub_externals (stub_cs failing_launcher) (Context 0) token_cccid
     (Some \<lparr>DeploymentChaincodeSpec = Some token_spec, CodePackage = []\<rparr>)
     (running_state (stub_handler (Some ?resp) None)) =
     (Return (Some ?resp, None),
      \<lparr>registry = [''token-contract:1'' \<mapsto> stub_handler (Some ?resp) None],
       calls = [Call_Handler_Execute ''token-contract:1'' (Context 0) token_cccid
        \<lparr>Type = ChaincodeMessage_INIT, Payload = ''transfer!'', Txid = ''t1'',
         ChannelId = ''ch1'', ChaincodeEvent = None\<rparr> 30]\<rparr>)"
    by (simp add: run_InvokeInit_running)
  from error_response_keeps_stamped_event [OF t v, of stub_externals token_cccid] i
  show ?thesis
    by (simp add: reply_def token_event_def token_cccid_def errors_Errorf_def)
qed

subsection \<open>C3: protocol violations\<close>

text \<open>
  C3. A response whose type is neither COMPLETED nor ERROR, a nil response that comes
  with a nil error, and a COMPLETED response whose payload does not unmarshal each make
  \<open>processChaincodeExecutionResult\<close>, and so \<open>Execute\<close> and \<open>ExecuteInit\<close>, return no
  response, no event and an error: never a nil error with a nil result.
\<close>

theorem protocol_violation_is_an_error:
  "(Type resp \<noteq> ChaincodeMessage_COMPLETED \<and> Type resp \<noteq> ChaincodeMessage_ERROR \<longrightarrow>
      processChaincodeExecutionResult ex cccid (Some resp) None =
        (None, None,
         Some (errors_Errorf (''unexpected response type '' @ fmt_d (Type resp) @
            '' for transaction '' @ TxID cccid))))
   \<and> processChaincodeExecutionResult ex cccid None None =
        (None, None, Some (errors_Errorf (''nil response from transaction '' @ TxID cccid)))
   \<and> (Type resp = ChaincodeMessage_COMPLETED \<and> proto_Unmarshal ex (Payload resp) = Inl ue \<longrightarrow>
      processChaincodeExecutionResult ex cccid (Some resp) None =
        (None, None,
         Some (errors_Wrapf ue (''failed to unmarshal response for transaction '' @ TxID cccid))))
   \<and> (\<forall>cs ctxt spec s s' r.
        Invoke ex cs ctxt cccid spec s = (Return (r, None), s') \<and>
        (r = None \<or>
         (\<exists>m. r = Some m \<and>
            (Type m \<noteq> ChaincodeMessage_COMPLETED \<and> Type m \<noteq> ChaincodeMessage_ERROR \<or>
             Type m = ChaincodeMessage_COMPLETED \<and>
               (\<exists>e. proto_Unmarshal ex (Payload m) = Inl e)))) \<longrightarrow>
        (\<exists>e. Execute ex cs ctxt cccid spec s = (Return (None, None, Some e), s')))
   \<and> (\<forall>cs ctxt spec s s' r.
        InvokeInit ex cs ctxt cccid spec s = (Return (r, None), s') \<and>
        (r = None \<or>
         (\<exists>m. r = Some m \<and>
            (Type m \<noteq> ChaincodeMessage_COMPLETED \<and> Type m \<noteq> ChaincodeMessage_ERROR \<or>
             Type m = ChaincodeMessage_COMPLETED \<and>
               (\<exists>e. proto_Unmarshal ex (Payload m) = Inl e)))) \<longrightarrow>
        (\<exists>e. ExecuteInit ex cs ctxt cccid spec s = (Return (None, None, Some e), s')))"
proof -
  have v: "\<exists>e. processChaincodeExecutionResult ex cccid r None = (None, None, Some e)"
    if "r = None \<or>
         (\<exists>m. r = Some m \<and>
            (Type m \<noteq> ChaincodeMessage_COMPLETED \<and> Type m \<noteq> ChaincodeMessage_ERROR \<or>
             Type m = ChaincodeMessage_COMPLETED \<and>
               (\<exists>e. proto_Unmarshal ex (Payload m) = Inl e)))" for r
    using that
    by (auto simp add: pcer_nil_response pcer_unexpected pcer_completed)
  show ?thesis
  proof (intro conjI allI impI)
    fix cs ctxt spec s s' r
    assume a: "Invoke ex cs ctxt cccid spec s = (Return (r, None), s') \<and>
        (r = None \<or>
         (\<exists>m. r = Some m \<and>
            (Type m \<noteq> ChaincodeMessage_COMPLETED \<and> Type m \<noteq> ChaincodeMessage_ERROR \<or>
             Type m = ChaincodeMessage_COMPLETED \<and>
               (\<exists>e. proto_Unmarshal ex (Payload m) = Inl e))))"
    from a v [of r] show "\<exists>e. Execute ex cs ctxt cccid spec s = (Return (None, None, Some e), s')"
      by (auto simp add: Execute_of_Invoke)
  next
    fix cs ctxt spec s s' r
    assume a: "InvokeInit ex cs ctxt cccid spec s = (Return (r, None), s') \<and>
        (r = None \<or>
         (\<exists>m. r = Some m \<and>
            (Type m \<noteq> ChaincodeMessage_COMPLETED \<and> Type m \<noteq> ChaincodeMessage_ERROR \<or>
             Type m = ChaincodeMessage_COMPLETED \<and>
               (\<exists>e. proto_Unmarshal ex (Payload m) = Inl e))))"
    from a v [of r]
    show "\<exists>e. ExecuteInit ex cs ctxt cccid spec s = (Return (None, None, Some e), s')"
      by (auto simp add: ExecuteInit_of_InvokeInit)
  qed (simp_all add: pcer_nil_response pcer_unexpected pcer_completed)
qed

theorem protocol_violation_is_an_error_witness:
  "processChaincodeExecutionResult stub_externals token_cccid (Some (reply 4 ''x'' None)) None =
     (None, None, Some (fundamental ''unexpected response type 4 for transaction t1''))
   \<and> processChaincodeExecutionResult stub_externals token_cccid None None =
     (None, None, Some (fundamental ''nil response from transaction t1''))
   \<and> processChaincodeExecutionResult stub_externals token_cccid
       (Some (reply ChaincodeMessage_COMPLETED [] None)) None =
     (None, None,
      Some (withMessage (fundamental ''unexpected EOF'')
        ''failed to unmarshal response for transaction t1''))
   \<and> (\<exists>e. Execute stub_externals (stub_cs failing_launcher) (Context 0) token_cccid
       (Some \<lparr>InvocationChaincodeSpec = Some token_spec\<rparr>)
       (running_state (stub_handler (Some (reply 4 ''x'' None)) None)) =
     (Return (None, None, Some e),
      \<lparr>registry = [''token-contract:1'' \<mapsto> stub_handler (Some (reply 4 ''x'' None)) None],
       calls = [Call_Handler_Execute ''token-contract:1'' (Context 0) token_cccid
          \<lparr>Type = ChaincodeMessage_TRANSACTION, Payload = ''transfer!'', Txid = ''t1'',
           ChannelId = ''ch1'', ChaincodeEvent = None\<rparr> 30]\<rparr>))
   \<and> (\<exists>e. ExecuteInit stub_externals (stub_cs failing_launcher) (Context 0) token_cccid
       (Some \<lparr>DeploymentChaincodeSpec = Some token_spec, CodePackage = []\<rparr>)
       (running_state (stub_handler None None)) =
     (Return (None, None, Some e),
      \<lparr>registry = [''token-contract:1'' \<mapsto> stub_handler None None],
       calls = [Call_Handler_Execute ''token-contract:1'' (Context 0) token_cccid
          \<lparr>Type = ChaincodeMessage_INIT, Payload = ''transfer!'', Txid = ''t1'',
           ChannelId = ''ch1'', ChaincodeEvent = None\<rparr> 30]\<rparr>))"
proof -
  let ?resp = "reply 4 ''x'' None"
  let ?bad = "reply ChaincodeMessage_COMPLETED [] None"
  note w = protocol_violation_is_an_error
    [where resp = ?resp and ex = stub_externals and cccid = token_cccid]
  note b = protocol_violation_is_an_error
    [where resp = ?bad and ex = stub_externals and cccid = token_cccid
       and ue = "fundamental ''unexpected EOF''"]
  have t: "Type ?resp \<noteq> ChaincodeMessage_COMPLETED \<and> Type ?resp \<noteq> ChaincodeMessage_ERROR"
    by (simp add: reply_def msg_types)
  have u: "Type ?bad = ChaincodeMessage_COMPLETED \<and>
      proto_Unmarshal stub_externals (Payload ?bad) = Inl (fundamental ''unexpected EOF'')"
    by (simp add: reply_def stub_externals_def)
  have f: "fmt_d (Type ?resp) = ''4''"
    by (simp add: reply_def fmt_d_def fmt_nat.simps digit_def)
  have i: "Invoke stub_externals (stub_cs failing_launcher) (Context 0) token_cccid
     (Some \<lparr>InvocationChaincodeSpec = Some token_spec\<rparr>)
     (running_state (stub_handler (Some ?resp) None)) =
     (Return (Some ?resp, None),
      \<lparr>registry = [''token-contract:1'' \<mapsto> stub_handler (Some ?resp) None],
       calls = [Call_Handler_Execute ''token-contract:1'' (Context 0) token_cccid
        \<lparr>Type = ChaincodeMessage_TRANSACTION, Payload = ''transfer!'', Txid = ''t1'',
         ChannelId = ''ch1'', ChaincodeEvent = None\<rparr> 30]\<rparr>)"
    by (simp add: run_Invoke_running)
  have j: "InvokeInit stub_externals (stub_cs failing_launcher) (Context 0) token_cccid
     (Some \<lparr>DeploymentChaincodeSpec = Some token_spec, CodePackage = []\<rparr>)
     (running_state (stub_handler None None)) =
     (Return (None, None),
      \<lparr>registry = [''token-contract:1'' \<mapsto> stub_handler None None],
       calls = [Call_Handler_Execute ''token-contract:1'' (Context 0) token_cccid
        \<lparr>Type = ChaincodeMessage_INIT, Payload = ''transfer!'', Txid = ''t1'',
         ChannelId = ''ch1'', ChaincodeEvent = None\<rparr> 30]\<rparr>)"
    by (simp add: run_InvokeInit_running)
  have c1: "processChaincodeExecutionResult stub_externals token_cccid (Some ?resp) None =
     (None, None, Some (fundamental ''unexpected response type 4 for transaction t1''))"
    using w t by (simp add: f errors_Errorf_def token_cccid_def)
  have c2: "processChaincodeExecutionResult stub_externals token_cccid None None =
     (None, None, Some (fundamental ''nil response from transaction t1''))"
    using w by (simp add: errors_Errorf_def token_cccid_def)
  have c3: "processChaincodeExecutionResult stub_externals token_cccid (Some ?bad) None =
     (None, None,
      Some (withMessage (fundamental ''unexpected EOF'')
        ''failed to unmarshal response for transaction t1''))"
    using b u by (simp add: errors_Wrapf_def token_cccid_def)
  have c4: "\<exists>e. Execute stub_externals (stub_cs failing_launcher) (Context 0) token_cccid
       (Some \<lparr>InvocationChaincodeSpec = Some token_spec\<rparr>)
       (running_state (stub_handler (Some ?resp) None)) =
     (Return (None, None, Some e),
      \<lparr>registry = [''token-contract:1'' \<mapsto> stub_handler (Some ?resp) None],
       calls = [Call_Handler_Execute ''token-contract:1'' (Context 0) token_cccid
          \<lparr>Type = ChaincodeMessage_TRANSACTION, Payload = ''transfer!'', Txid = ''t1'',
           ChannelId = ''ch1'', ChaincodeEvent = None\<rparr> 30]\<rparr>)"
    using w i t by blast
  have c5: "\<exists>e. ExecuteInit stub_externals (stub_cs failing_launcher) (Context 0) token_cccid
       (Some \<lparr>DeploymentChaincodeSpec = Some token_spec, CodePackage = []\<rparr>)
       (running_state (stub_handler None None)) =
     (Return (None, None, Some e),
      \<lparr>registry = [''token-contract:1'' \<mapsto> stub_handler None None],
       calls = [Call_Handler_Execute ''token-contract:1'' (Context 0) token_cccid
          \<lparr>Type = ChaincodeMessage_INIT, Payload = ''transfer!'', Txid = ''t1'',
           ChannelId = ''ch1'', ChaincodeEvent = None\<rparr> 30]\<rparr>)"
    using w j by blast
  from c1 c2 c3 c4 c5 show ?thesis by blast
qed

subsection \<open>C4: no handler at execute\<close>

text \<open>
  C4. When the registry has no handler for the canonical name of the context,
  \<open>execute\<close> returns a nil message and the error \<open>unable to invoke chaincode\<close> followed
  by the canonical name, and leaves the state as it was: no handler is called and nothing
  is retried.
\<close>

theorem execute_without_handler_fails_at_once:
  assumes "registry s (GetCanonicalName cccid) = None"
  shows
    "execute cs ctxt cccid msg s =
       ((None, Some (errors_Errorf (''unable to invoke chaincode '' @ GetCanonicalName cccid))), s)
     \<and> Error (errors_Errorf (''unable to invoke chaincode '' @ GetCanonicalName cccid)) =
         ''unable to invoke chaincode '' @ GetCanonicalName cccid
     \<and> strings_Contains
         (Error (errors_Errorf (''unable to invoke chaincode '' @ GetCanonicalName cccid)))
         (GetCanonicalName cccid)"
proof -
  let ?e = "errors_Errorf (''unable to invoke chaincode '' @ GetCanonicalName cccid)"
  have a: "execute cs ctxt cccid msg s = ((None, Some ?e), s)"
    using assms by (simp add: execute_def)
  have b: "Error ?e = ''unable to invoke chaincode '' @ GetCanonicalName cccid"
    by (simp add: errors_Errorf_def)
  have c: "strings_Contains (Error ?e) (GetCanonicalName cccid)"
    unfolding b by (rule contains_append)
  from a b c show ?thesis
    by (intro conjI)
qed

theorem execute_without_handler_fails_at_once_witness:
  "execute (stub_cs failing_launcher) (Context 0) token_cccid
     (reply ChaincodeMessage_TRANSACTION ''transfer'' None) empty_state =
     ((None, Some (fundamental ''unable to invoke chaincode token-contract:1'')), empty_state)
   \<and> strings_Contains ''unable to invoke chaincode token-contract:1'' ''token-contract:1''"
proof -
  have r: "registry empty_state (GetCanonicalName token_cccid) = None"
    by (simp add: empty_state_def)
  have n: "GetCanonicalName token_cccid = ''token-contract:1''"
    by (simp add: GetCanonicalName_def token_cccid_def)
  from execute_without_handler_fails_at_once [OF r, of "stub_cs failing_launcher" "Context 0"
      "reply ChaincodeMessage_TRANSACTION ''transfer'' None"]
  show ?thesis
    unfolding n by (simp add: errors_Errorf_def)
qed

subsection \<open>Launching: the fast path and the slow path\<close>

lemma Launch_registered:
  "registry s (GetCanonicalName cccid) = Some h \<Longrightarrow> Launch ex cs cccid spec s = (None, s)"
  by (simp add: Launch_def)

lemma LaunchInit_registered:
  "registry s (GetCanonicalName cccid) = Some h \<Longrightarrow> LaunchInit ex cs cccid spec s = (None, s)"
  by (simp add: LaunchInit_def)

lemma LaunchInit_unregistered:
  "registry s (GetCanonicalName cccid) = None \<Longrightarrow>
   LaunchInit ex cs cccid spec s =
     (fst (Launcher_Launch cs
        (Some ((DeploymentSpecToChaincodeContainerInfo ex spec)\<lparr>InfoVersion := Version cccid\<rparr>))
        (registry s)),
      s\<lparr>registry := snd (Launcher_Launch cs
          (Some ((DeploymentSpecToChaincodeContainerInfo ex spec)\<lparr>InfoVersion := Version cccid\<rparr>))
          (registry s)),
        calls := calls s @
          [Call_Launcher_Launch
            (Some ((DeploymentSpecToChaincodeContainerInfo ex spec)
               \<lparr>InfoVersion := Version cccid\<rparr>))]\<rparr>)"
  by (simp add: LaunchInit_def call_Launcher_Launch_def Let_def split: prod.splits)

lemma Launch_resolution_failure:
  "registry s (GetCanonicalName cccid) = None \<Longrightarrow>
   Lifecycle_ChaincodeContainerInfo cs (ChainID cccid)
     (ChaincodeSpec_Name ex (GetChaincodeSpec spec)) = (ci, Some err) \<Longrightarrow>
   Launch ex cs cccid spec s =
     (Some (errors_Wrapf err
        (''[channel '' @ ChainID cccid @ ''] failed to get chaincode container info for '' @
           ChaincodeSpec_Name ex (GetChaincodeSpec spec))),
      s\<lparr>calls := calls s @
          [Call_Lifecycle_ChaincodeContainerInfo (ChainID cccid)
             (ChaincodeSpec_Name ex (GetChaincodeSpec spec))]\<rparr>)"
  by (simp add: Launch_def call_Lifecycle_ChaincodeContainerInfo_def Let_def)

lemma Launch_resolved:
  "registry s (GetCanonicalName cccid) = None \<Longrightarrow>
   Lifecycle_ChaincodeContainerInfo cs (ChainID cccid)
     (ChaincodeSpec_Name ex (GetChaincodeSpec spec)) = (ci, None) \<Longrightarrow>
   Launch ex cs cccid spec s =
     (fst (Launcher_Launch cs ci (registry s)),
      s\<lparr>registry := snd (Launcher_Launch cs ci (registry s)),
        calls := calls s @
          [Call_Lifecycle_ChaincodeContainerInfo (ChainID cccid)
             (ChaincodeSpec_Name ex (GetChaincodeSpec spec)),
           Call_Launcher_Launch ci]\<rparr>)"
  by (simp add: Launch_def call_Lifecycle_ChaincodeContainerInfo_def call_Launcher_Launch_def
        Let_def split: prod.splits)

lemma Launch_launcher_calls:
  "length (launcher_calls (snd (Launch ex cs cccid spec s))) \<le> length (launcher_calls s) + 1"
proof (cases "registry s (GetCanonicalName cccid)")
  case (Some h)
  then show ?thesis by (simp add: Launch_registered)
next
  case None
  obtain ci err where l: "Lifecycle_ChaincodeContainerInfo cs (ChainID cccid)
     (ChaincodeSpec_Name ex (GetChaincodeSpec spec)) = (ci, err)"
    by (cases "Lifecycle_ChaincodeContainerInfo cs (ChainID cccid)
     (ChaincodeSpec_Name ex (GetChaincodeSpec spec))")
  show ?thesis
  proof (cases err)
    case None
    with l \<open>registry s (GetCanonicalName cccid) = None\<close> show ?thesis
      by (simp add: Launch_resolved launcher_calls_def)
  next
    case (Some e)
    with l \<open>registry s (GetCanonicalName cccid) = None\<close> show ?thesis
      by (simp add: Launch_resolution_failure launcher_calls_def)
  qed
qed

lemma LaunchInit_launcher_calls:
  "length (launcher_calls (snd (LaunchInit ex cs cccid spec s))) \<le> length (launcher_calls s) + 1"
proof (cases "registry s (GetCanonicalName cccid)")
  case (Some h)
  then show ?thesis by (simp add: LaunchInit_registered)
next
  case None
  then show ?thesis by (simp add: LaunchInit_unregistered launcher_calls_def)
qed

lemma LaunchInit_lifecycle_calls:
  "lifecycle_calls (snd (LaunchInit ex cs cccid spec s)) = lifecycle_calls s"
proof (cases "registry s (GetCanonicalName cccid)")
  case (Some h)
  then show ?thesis by (simp add: LaunchInit_registered)
next
  case None
  then show ?thesis by (simp add: LaunchInit_unregistered lifecycle_calls_def)
qed

lemma execute_lifecycle_calls:
  "execute cs ctxt cccid msg s = (r, s') \<Longrightarrow> lifecycle_calls s' = lifecycle_calls s"
  by (auto simp add: execute_def lifecycle_calls_def Let_def split: option.splits prod.splits)

lemma execute_registered:
  "registry s (GetCanonicalName cccid) = Some h \<Longrightarrow>
   execute cs ctxt cccid msg s =
     (case Handler_Execute h ctxt cccid msg (ExecuteTimeout cs) of
        (ccresp, Some err) \<Rightarrow> (None, Some (errors_WithMessage err ''error sending''))
      | (ccresp, None) \<Rightarrow> (ccresp, None),
      s\<lparr>calls := calls s @
          [Call_Handler_Execute (GetCanonicalName cccid) ctxt cccid msg (ExecuteTimeout cs)]\<rparr>)"
  by (simp add: execute_def Let_def split: option.splits prod.splits)


subsection \<open>C5: launching a running unit\<close>

text \<open>
  C5, as amended. When the registry already has a handler for the canonical name of the context,
  \<open>Launch\<close> and \<open>LaunchInit\<close> return a nil error and leave the state as it was: the
  lifecycle is not consulted and the launcher is not called (the runtime is started by the
  launcher only). Hence, of two calls in sequence for the same unit, the first of which
  leaves the unit registered, the second adds no call of the launcher: both together make
  at most one.
\<close>

theorem launch_of_running_unit_is_a_no_op:
  assumes "registry s (GetCanonicalName cccid) = Some h"
  shows
    "Launch ex cs cccid spec s = (None, s)
     \<and> LaunchInit ex cs cccid dspec s = (None, s)
     \<and> (\<forall>s0 spec0 e0.
          Launch ex cs cccid spec0 s0 = (e0, s) \<longrightarrow>
          length (launcher_calls (snd (Launch ex cs cccid spec s))) \<le>
            length (launcher_calls s0) + 1)
     \<and> (\<forall>s0 dspec0 e0.
          LaunchInit ex cs cccid dspec0 s0 = (e0, s) \<longrightarrow>
          length (launcher_calls (snd (LaunchInit ex cs cccid dspec s))) \<le>
            length (launcher_calls s0) + 1)"
proof (intro conjI allI impI)
  show a: "Launch ex cs cccid spec s = (None, s)"
    using assms by (rule Launch_registered)
  show b: "LaunchInit ex cs cccid dspec s = (None, s)"
    using assms by (rule LaunchInit_registered)
  fix s0 :: state and e0 :: "error option"
  {
    fix spec0
    assume f: "Launch ex cs cccid spec0 s0 = (e0, s)"
    have "length (launcher_calls s) \<le> length (launcher_calls s0) + 1"
      using Launch_launcher_calls [of ex cs cccid spec0 s0] unfolding f by simp
    then show "length (launcher_calls (snd (Launch ex cs cccid spec s))) \<le>
        length (launcher_calls s0) + 1"
      unfolding a by simp
  }
  {
    fix dspec0
    assume f: "LaunchInit ex cs cccid dspec0 s0 = (e0, s)"
    have "length (launcher_calls s) \<le> length (launcher_calls s0) + 1"
      using LaunchInit_launcher_calls [of ex cs cccid dspec0 s0] unfolding f by simp
    then show "length (launcher_calls (snd (LaunchInit ex cs cccid dspec s))) \<le>
        length (launcher_calls s0) + 1"
      unfolding b by simp
  }
qed

lemma run_Launch_empty:
  "Launch stub_externals (stub_cs (registering_launcher h)) token_cccid
     (Some \<lparr>InvocationChaincodeSpec = Some token_spec\<rparr>) empty_state =
   (None,
    \<lparr>registry = [''token-contract:1'' \<mapsto> h],
     calls = [Call_Lifecycle_ChaincodeContainerInfo ''ch1'' ''token-contract'',
        Call_Launcher_Launch
          (Some \<lparr>InfoName = ''token-contract'', InfoVersion = ''1'', InfoType = ''GOLANG'',
                 InfoCodePackage = []\<rparr>)]\<rparr>)"
  by (simp add: ops doubles Let_def)

theorem launch_of_running_unit_is_a_no_op_witness:
  "Launch stub_externals (stub_cs (registering_launcher (stub_handler None None))) token_cccid
     (Some \<lparr>InvocationChaincodeSpec = Some token_spec\<rparr>)
     \<lparr>registry = [''token-contract:1'' \<mapsto> stub_handler None None],
      calls = [Call_Lifecycle_ChaincodeContainerInfo ''ch1'' ''token-contract'',
        Call_Launcher_Launch
          (Some \<lparr>InfoName = ''token-contract'', InfoVersion = ''1'', InfoType = ''GOLANG'',
                 InfoCodePackage = []\<rparr>)]\<rparr> =
   (None,
     \<lparr>registry = [''token-contract:1'' \<mapsto> stub_handler None None],
      calls = [Call_Lifecycle_ChaincodeContainerInfo ''ch1'' ''token-contract'',
        Call_Launcher_Launch
          (Some \<lparr>InfoName = ''token-contract'', InfoVersion = ''1'', InfoType = ''GOLANG'',
                 InfoCodePackage = []\<rparr>)]\<rparr>)
   \<and> LaunchInit stub_externals (stub_cs (registering_launcher (stub_handler None None)))
       token_cccid None (running_state (stub_handler None None)) =
     (None, running_state (stub_handler None None))
   \<and> length (launcher_calls (snd
        (Launch stub_externals (stub_cs (registering_launcher (stub_handler None None)))
           token_cccid (Some \<lparr>InvocationChaincodeSpec = Some token_spec\<rparr>)
           (snd (Launch stub_externals (stub_cs (registering_launcher (stub_handler None None)))
              token_cccid (Some \<lparr>InvocationChaincodeSpec = Some token_spec\<rparr>) empty_state)))))
       \<le> 1"
proof -
  let ?h = "stub_handler None None"
  let ?cs = "stub_cs (registering_launcher ?h)"
  let ?spec = "Some \<lparr>InvocationChaincodeSpec = Some token_spec\<rparr>"
  let ?s = "\<lparr>registry = [''token-contract:1'' \<mapsto> ?h],
      calls = [Call_Lifecycle_ChaincodeContainerInfo ''ch1'' ''token-contract'',
        Call_Launcher_Launch
          (Some \<lparr>InfoName = ''token-contract'', InfoVersion = ''1'', InfoType = ''GOLANG'',
                 InfoCodePackage = []\<rparr>)]\<rparr>"
  have r: "registry ?s (GetCanonicalName token_cccid) = Some ?h"
    by (simp add: GetCanonicalName_def token_cccid_def)
  have r': "registry (running_state ?h) (GetCanonicalName token_cccid) = Some ?h"
    by (simp add: GetCanonicalName_def token_cccid_def running_state_def)
  have f: "Launch stub_externals ?cs token_cccid ?spec empty_state = (None, ?s)"
    by (rule run_Launch_empty)
  have e: "launcher_calls empty_state = []"
    by (simp add: launcher_calls_def empty_state_def)
  note w = launch_of_running_unit_is_a_no_op [OF r, of stub_externals ?cs ?spec None]
  note w' = launch_of_running_unit_is_a_no_op [OF r', of stub_externals ?cs ?spec None]
  have c1: "Launch stub_externals ?cs token_cccid ?spec ?s = (None, ?s)"
    using w by blast
  have c2: "LaunchInit stub_externals ?cs token_cccid None (running_state ?h) =
      (None, running_state ?h)"
    using w' by blast
  have "length (launcher_calls (snd (Launch stub_externals ?cs token_cccid ?spec ?s))) \<le>
      length (launcher_calls empty_state) + 1"
    using w f by blast
  then have c3: "length (launcher_calls (snd (Launch stub_externals ?cs token_cccid ?spec
      (snd (Launch stub_externals ?cs token_cccid ?spec empty_state))))) \<le> 1"
    unfolding f e by simp
  from c1 c2 c3 show ?thesis
    by (intro conjI)
qed


text \<open>
  C5, as stated, fails for the two calls in sequence when the first leaves the unit
  unregistered: with a launcher that fails, each of two calls of \<open>Launch\<close> for the same
  unit consults the lifecycle and calls the launcher, so the launcher is called twice.
\<close>

theorem two_launches_after_failed_start_counterexample:
  "Launch stub_externals (stub_cs failing_launcher) token_cccid
     (Some \<lparr>InvocationChaincodeSpec = Some token_spec\<rparr>) empty_state =
   (Some (fundamental ''start failed''),
    \<lparr>registry = Map.empty,
     calls = [Call_Lifecycle_ChaincodeContainerInfo ''ch1'' ''token-contract'',
        Call_Launcher_Launch
          (Some \<lparr>InfoName = ''token-contract'', InfoVersion = ''1'', InfoType = ''GOLANG'',
                 InfoCodePackage = []\<rparr>)]\<rparr>)
   \<and> Launch stub_externals (stub_cs failing_launcher) token_cccid
     (Some \<lparr>InvocationChaincodeSpec = Some token_spec\<rparr>)
     \<lparr>registry = Map.empty,
      calls = [Call_Lifecycle_ChaincodeContainerInfo ''ch1'' ''token-contract'',
        Call_Launcher_Launch
          (Some \<lparr>InfoName = ''token-contract'', InfoVersion = ''1'', InfoType = ''GOLANG'',
                 InfoCodePackage = []\<rparr>)]\<rparr> =
   (Some (fundamental ''start failed''),
    \<lparr>registry = Map.empty,
     calls = [Call_Lifecycle_ChaincodeContainerInfo ''ch1'' ''token-contract'',
        Call_Launcher_Launch
          (Some \<lparr>InfoName = ''token-contract'', InfoVersion = ''1'', InfoType = ''GOLANG'',
                 InfoCodePackage = []\<rparr>),
        Call_Lifecycle_ChaincodeContainerInfo ''ch1'' ''token-contract'',
        Call_Launcher_Launch
          (Some \<lparr>InfoName = ''token-contract'', InfoVersion = ''1'', InfoType = ''GOLANG'',
                 InfoCodePackage = []\<rparr>)]\<rparr>)
   \<and> launcher_calls empty_state = []
   \<and> length (launcher_calls (snd
        (Launch stub_externals (stub_cs failing_launcher) token_cccid
           (Some \<lparr>InvocationChaincodeSpec = Some token_spec\<rparr>)
           (snd (Launch stub_externals (stub_cs failing_launcher) token_cccid
              (Some \<lparr>InvocationChaincodeSpec = Some token_spec\<rparr>) empty_state))))) = 2"
proof -
  let ?cs = "stub_cs failing_launcher"
  let ?spec = "Some \<lparr>InvocationChaincodeSpec = Some token_spec\<rparr>"
  let ?ci = "Some \<lparr>InfoName = ''token-contract'', InfoVersion = ''1'', InfoType = ''GOLANG'',
                 InfoCodePackage = []\<rparr>"
  let ?s1 = "\<lparr>registry = Map.empty,
     calls = [Call_Lifecycle_ChaincodeContainerInfo ''ch1'' ''token-contract'',
        Call_Launcher_Launch ?ci]\<rparr>"
  let ?s2 = "\<lparr>registry = Map.empty,
     calls = [Call_Lifecycle_ChaincodeContainerInfo ''ch1'' ''token-contract'',
        Call_Launcher_Launch ?ci,
        Call_Lifecycle_ChaincodeContainerInfo ''ch1'' ''token-contract'',
        Call_Launcher_Launch ?ci]\<rparr>"
  have a: "Launch stub_externals ?cs token_cccid ?spec empty_state =
      (Some (fundamental ''start failed''), ?s1)"
    by (simp add: ops doubles Let_def)
  have b: "Launch stub_externals ?cs token_cccid ?spec ?s1 =
      (Some (fundamental ''start failed''), ?s2)"
    by (simp add: ops doubles Let_def)
  have c: "launcher_calls empty_state = []"
    by (simp add: launcher_calls_def empty_state_def)
  have d: "length (launcher_calls (snd (Launch stub_externals ?cs token_cccid ?spec
      (snd (Launch stub_externals ?cs token_cccid ?spec empty_state))))) = 2"
    unfolding a snd_conv b by (simp add: launcher_calls_def)
  from a b c d show ?thesis
    by (intro conjI)
qed

subsection \<open>C6: the deploy-time path\<close>

text \<open>
  C6. \<open>LaunchInit\<close>, and \<open>InvokeInit\<close> as a whole, never call the lifecycle. When no
  handler is registered, \<open>LaunchInit\<close> calls the launcher once, with the container info
  built from the deployment spec and its version overwritten by the version of the
  context, and returns what the launcher returns. After a successful \<open>LaunchInit\<close>,
  \<open>InvokeInit\<close> sends to the registered handler an INIT message whose payload is the
  marshalled input with the proposal decorations of the context, with the transaction id
  and the channel id of the context.
\<close>

theorem init_path_bypasses_lifecycle:
  "lifecycle_calls (snd (LaunchInit ex cs cccid dspec s)) = lifecycle_calls s
   \<and> lifecycle_calls (snd (InvokeInit ex cs ctxt cccid dspec s)) = lifecycle_calls s
   \<and> (registry s (GetCanonicalName cccid) = None \<longrightarrow>
        LaunchInit ex cs cccid dspec s =
          (fst (Launcher_Launch cs
             (Some ((DeploymentSpecToChaincodeContainerInfo ex dspec)
                \<lparr>InfoVersion := Version cccid\<rparr>))
             (registry s)),
           s\<lparr>registry := snd (Launcher_Launch cs
               (Some ((DeploymentSpecToChaincodeContainerInfo ex dspec)
                  \<lparr>InfoVersion := Version cccid\<rparr>))
               (registry s)),
             calls := calls s @
               [Call_Launcher_Launch
                 (Some ((DeploymentSpecToChaincodeContainerInfo ex dspec)
                    \<lparr>InfoVersion := Version cccid\<rparr>))]\<rparr>))
   \<and> (LaunchInit ex cs cccid dspec s = (None, s1) \<and>
      GetChaincodeSpec_deployment dspec = Some chaincodeSpec \<and>
      Input chaincodeSpec = Some input \<and>
      proto_Marshal ex (input\<lparr>Decorations := ProposalDecorations cccid\<rparr>) = Inr payload \<and>
      registry s1 (GetCanonicalName cccid) = Some h \<longrightarrow>
        InvokeInit ex cs ctxt cccid dspec s =
          (case Handler_Execute h ctxt cccid
                  \<lparr>Type = ChaincodeMessage_INIT, Payload = payload, Txid = TxID cccid,
                   ChannelId = ChainID cccid, ChaincodeEvent = None\<rparr> (ExecuteTimeout cs) of
             (ccresp, Some err) \<Rightarrow> Return (None, Some (errors_WithMessage err ''error sending''))
           | (ccresp, None) \<Rightarrow> Return (ccresp, None),
           s1\<lparr>calls := calls s1 @
               [Call_Handler_Execute (GetCanonicalName cccid) ctxt cccid
                  \<lparr>Type = ChaincodeMessage_INIT, Payload = payload, Txid = TxID cccid,
                   ChannelId = ChainID cccid, ChaincodeEvent = None\<rparr> (ExecuteTimeout cs)]\<rparr>))"
proof (intro conjI impI)
  show l: "lifecycle_calls (snd (LaunchInit ex cs cccid dspec s)) = lifecycle_calls s"
    by (rule LaunchInit_lifecycle_calls)
  show "lifecycle_calls (snd (InvokeInit ex cs ctxt cccid dspec s)) = lifecycle_calls s"
  proof (cases "LaunchInit ex cs cccid dspec s")
    case (Pair e s1)
    with l have "lifecycle_calls s1 = lifecycle_calls s"
      by simp
    with Pair show ?thesis
      by (auto simp add: InvokeInit_def Let_def split: option.splits sum.splits prod.splits
            dest!: execute_lifecycle_calls)
  qed
next
  assume "registry s (GetCanonicalName cccid) = None"
  then show "LaunchInit ex cs cccid dspec s =
          (fst (Launcher_Launch cs
             (Some ((DeploymentSpecToChaincodeContainerInfo ex dspec)
                \<lparr>InfoVersion := Version cccid\<rparr>))
             (registry s)),
           s\<lparr>registry := snd (Launcher_Launch cs
               (Some ((DeploymentSpecToChaincodeContainerInfo ex dspec)
                  \<lparr>InfoVersion := Version cccid\<rparr>))
               (registry s)),
             calls := calls s @
               [Call_Launcher_Launch
                 (Some ((DeploymentSpecToChaincodeContainerInfo ex dspec)
                    \<lparr>InfoVersion := Version cccid\<rparr>))]\<rparr>)"
    by (rule LaunchInit_unregistered)
next
  assume a: "LaunchInit ex cs cccid dspec s = (None, s1) \<and>
      GetChaincodeSpec_deployment dspec = Some chaincodeSpec \<and>
      Input chaincodeSpec = Some input \<and>
      proto_Marshal ex (input\<lparr>Decorations := ProposalDecorations cccid\<rparr>) = Inr payload \<and>
      registry s1 (GetCanonicalName cccid) = Some h"
  then show "InvokeInit ex cs ctxt cccid dspec s =
          (case Handler_Execute h ctxt cccid
                  \<lparr>Type = ChaincodeMessage_INIT, Payload = payload, Txid = TxID cccid,
                   ChannelId = ChainID cccid, ChaincodeEvent = None\<rparr> (ExecuteTimeout cs) of
             (ccresp, Some err) \<Rightarrow> Return (None, Some (errors_WithMessage err ''error sending''))
           | (ccresp, None) \<Rightarrow> Return (ccresp, None),
           s1\<lparr>calls := calls s1 @
               [Call_Handler_Execute (GetCanonicalName cccid) ctxt cccid
                  \<lparr>Type = ChaincodeMessage_INIT, Payload = payload, Txid = TxID cccid,
                   ChannelId = ChainID cccid, ChaincodeEvent = None\<rparr> (ExecuteTimeout cs)]\<rparr>)"
    by (simp add: InvokeInit_def createCCMessage_def execute_registered Let_def
          split: prod.splits option.splits)
qed

lemma run_LaunchInit_empty:
  "LaunchInit stub_externals (stub_cs (registering_launcher h)) token_cccid
     (Some \<lparr>DeploymentChaincodeSpec = Some token_spec, CodePackage = []\<rparr>) empty_state =
   (None,
    \<lparr>registry = [''token-contract:1'' \<mapsto> h],
     calls = [Call_Launcher_Launch
          (Some \<lparr>InfoName = ''token-contract'', InfoVersion = ''1'', InfoType = [],
                 InfoCodePackage = []\<rparr>)]\<rparr>)"
  by (simp add: ops doubles Let_def)

theorem init_path_bypasses_lifecycle_witness:
  "lifecycle_calls (snd (InvokeInit stub_externals
       (stub_cs (registering_launcher
          (stub_handler (Some (reply ChaincodeMessage_COMPLETED ''ok'' None)) None)))
       (Context 0) token_cccid
       (Some \<lparr>DeploymentChaincodeSpec = Some token_spec, CodePackage = []\<rparr>) empty_state)) = []
   \<and> LaunchInit stub_externals
       (stub_cs (registering_launcher
          (stub_handler (Some (reply ChaincodeMessage_COMPLETED ''ok'' None)) None)))
       token_cccid
       (Some \<lparr>DeploymentChaincodeSpec = Some token_spec, CodePackage = []\<rparr>) empty_state =
     (None,
      \<lparr>registry = [''token-contract:1'' \<mapsto>
          stub_handler (Some (reply ChaincodeMessage_COMPLETED ''ok'' None)) None],
       calls = [Call_Launcher_Launch
          (Some \<lparr>InfoName = ''token-contract'', InfoVersion = ''1'', InfoType = [],
                 InfoCodePackage = []\<rparr>)]\<rparr>)
   \<and> InvokeInit stub_externals
       (stub_cs (registering_launcher
          (stub_handler (Some (reply ChaincodeMessage_COMPLETED ''ok'' None)) None)))
       (Context 0) token_cccid
       (Some \<lparr>DeploymentChaincodeSpec = Some token_spec, CodePackage = []\<rparr>) empty_state =
     (Return (Some (reply ChaincodeMessage_COMPLETED ''ok'' None), None),
      \<lparr>registry = [''token-contract:1'' \<mapsto>
          stub_handler (Some (reply ChaincodeMessage_COMPLETED ''ok'' None)) None],
       calls = [Call_Launcher_Launch
          (Some \<lparr>InfoName = ''token-contract'', InfoVersion = ''1'', InfoType = [],
                 InfoCodePackage = []\<rparr>),
          Call_Handler_Execute ''token-contract:1'' (Context 0) token_cccid
            \<lparr>Type = ChaincodeMessage_INIT, Payload = ''transfer!'', Txid = ''t1'',
             ChannelId = ''ch1'', ChaincodeEvent = None\<rparr> 30]\<rparr>)"
proof -
  let ?h = "stub_handler (Some (reply ChaincodeMessage_COMPLETED ''ok'' None)) None"
  let ?cs = "stub_cs (registering_launcher ?h)"
  let ?dspec = "Some \<lparr>DeploymentChaincodeSpec = Some token_spec, CodePackage = []\<rparr>"
  let ?s1 = "\<lparr>registry = [''token-contract:1'' \<mapsto> ?h],
     calls = [Call_Launcher_Launch
          (Some \<lparr>InfoName = ''token-contract'', InfoVersion = ''1'', InfoType = [],
                 InfoCodePackage = []\<rparr>)]\<rparr>"
  let ?input = "\<lparr>Args = [''transfer''], Decorations = Map.empty\<rparr>"
  note w = init_path_bypasses_lifecycle
    [where ex = stub_externals and cs = ?cs and cccid = token_cccid and dspec = ?dspec
       and s = empty_state and ctxt = "Context 0" and ?s1.0 = ?s1 and chaincodeSpec = token_spec
       and input = ?input and payload = "''transfer!''" and h = ?h]
  have r: "registry empty_state (GetCanonicalName token_cccid) = None"
    by (simp add: empty_state_def)
  have l: "LaunchInit stub_externals ?cs token_cccid ?dspec empty_state = (None, ?s1)"
    by (rule run_LaunchInit_empty)
  have g: "GetChaincodeSpec_deployment ?dspec = Some token_spec"
    by (simp add: GetChaincodeSpec_deployment_def)
  have i: "Input token_spec = Some ?input"
    by (simp add: token_spec_def)
  have m: "proto_Marshal stub_externals (?input\<lparr>Decorations := ProposalDecorations token_cccid\<rparr>)
      = Inr ''transfer!''"
    by (simp add: stub_externals_def token_cccid_def)
  have r1: "registry ?s1 (GetCanonicalName token_cccid) = Some ?h"
    by (simp add: GetCanonicalName_def token_cccid_def)
  have e: "lifecycle_calls empty_state = []"
    by (simp add: lifecycle_calls_def empty_state_def)
  have c1: "lifecycle_calls (snd (InvokeInit stub_externals ?cs (Context 0) token_cccid ?dspec
      empty_state)) = []"
    using w e by simp
  have "InvokeInit stub_externals ?cs (Context 0) token_cccid ?dspec empty_state =
      (case Handler_Execute ?h (Context 0) token_cccid
                  \<lparr>Type = ChaincodeMessage_INIT, Payload = ''transfer!'',
                   Txid = TxID token_cccid,
                   ChannelId = ChainID token_cccid, ChaincodeEvent = None\<rparr> (ExecuteTimeout ?cs) of
             (ccresp, Some err) \<Rightarrow> Return (None, Some (errors_WithMessage err ''error sending''))
           | (ccresp, None) \<Rightarrow> Return (ccresp, None),
           ?s1\<lparr>calls := calls ?s1 @
               [Call_Handler_Execute (GetCanonicalName token_cccid) (Context 0) token_cccid
                  \<lparr>Type = ChaincodeMessage_INIT, Payload = ''transfer!'',
                   Txid = TxID token_cccid,
                   ChannelId = ChainID token_cccid, ChaincodeEvent = None\<rparr>
                  (ExecuteTimeout ?cs)]\<rparr>)"
    using w l g i m r1 by blast
  then have c3: "InvokeInit stub_externals ?cs (Context 0) token_cccid ?dspec empty_state =
     (Return (Some (reply ChaincodeMessage_COMPLETED ''ok'' None), None),
      \<lparr>registry = [''token-contract:1'' \<mapsto> ?h],
       calls = [Call_Launcher_Launch
          (Some \<lparr>InfoName = ''token-contract'', InfoVersion = ''1'', InfoType = [],
                 InfoCodePackage = []\<rparr>),
          Call_Handler_Execute ''token-contract:1'' (Context 0) token_cccid
            \<lparr>Type = ChaincodeMessage_INIT, Payload = ''transfer!'', Txid = ''t1'',
             ChannelId = ''ch1'', ChaincodeEvent = None\<rparr> 30]\<rparr>)"
    by (simp add: stub_handler_def stub_cs_def GetCanonicalName_def token_cccid_def)
  from c1 l c3 show ?thesis
    by (intro conjI)
qed

subsection \<open>C7: the steady-state path\<close>

text \<open>
  C7. \<open>Launch\<close> consults the lifecycle only when the unit is not registered, and then
  with the channel id of the context and the name of the chaincode spec. When the
  lifecycle fails, \<open>Launch\<close> returns the wrapped error and the launcher is not called;
  otherwise the launcher is called with the container info the lifecycle returned. After a
  successful \<open>Launch\<close>, \<open>Invoke\<close> sends to the registered handler a TRANSACTION message
  whose payload is the marshalled input, with the transaction id and the channel id of the
  context.
\<close>

theorem steady_path_resolves_through_lifecycle:
  "(registry s (GetCanonicalName cccid) \<noteq> None \<longrightarrow> Launch ex cs cccid spec s = (None, s))
   \<and> (registry s (GetCanonicalName cccid) = None \<and>
      Lifecycle_ChaincodeContainerInfo cs (ChainID cccid)
        (ChaincodeSpec_Name ex (GetChaincodeSpec spec)) = (ci, Some err) \<longrightarrow>
        Launch ex cs cccid spec s =
          (Some (errors_Wrapf err
             (''[channel '' @ ChainID cccid @ ''] failed to get chaincode container info for '' @
                ChaincodeSpec_Name ex (GetChaincodeSpec spec))),
           s\<lparr>calls := calls s @
               [Call_Lifecycle_ChaincodeContainerInfo (ChainID cccid)
                  (ChaincodeSpec_Name ex (GetChaincodeSpec spec))]\<rparr>))
   \<and> (registry s (GetCanonicalName cccid) = None \<and>
      Lifecycle_ChaincodeContainerInfo cs (ChainID cccid)
        (ChaincodeSpec_Name ex (GetChaincodeSpec spec)) = (ci, None) \<longrightarrow>
        Launch ex cs cccid spec s =
          (fst (Launcher_Launch cs ci (registry s)),
           s\<lparr>registry := snd (Launcher_Launch cs ci (registry s)),
             calls := calls s @
               [Call_Lifecycle_ChaincodeContainerInfo (ChainID cccid)
                  (ChaincodeSpec_Name ex (GetChaincodeSpec spec)),
                Call_Launcher_Launch ci]\<rparr>))
   \<and> (GetChaincodeSpec spec = Some chaincodeSpec \<and>
      Launch ex cs cccid spec s = (None, s1) \<and>
      Input chaincodeSpec = Some input \<and>
      proto_Marshal ex (input\<lparr>Decorations := ProposalDecorations cccid\<rparr>) = Inr payload \<and>
      registry s1 (GetCanonicalName cccid) = Some h \<longrightarrow>
        Invoke ex cs ctxt cccid spec s =
          (case Handler_Execute h ctxt cccid
                  \<lparr>Type = ChaincodeMessage_TRANSACTION, Payload = payload, Txid = TxID cccid,
                   ChannelId = ChainID cccid, ChaincodeEvent = None\<rparr> (ExecuteTimeout cs) of
             (ccresp, Some err) \<Rightarrow> Return (None, Some (errors_WithMessage err ''error sending''))
           | (ccresp, None) \<Rightarrow> Return (ccresp, None),
           s1\<lparr>calls := calls s1 @
               [Call_Handler_Execute (GetCanonicalName cccid) ctxt cccid
                  \<lparr>Type = ChaincodeMessage_TRANSACTION, Payload = payload, Txid = TxID cccid,
                   ChannelId = ChainID cccid, ChaincodeEvent = None\<rparr> (ExecuteTimeout cs)]\<rparr>))"
proof (intro conjI impI)
  assume "registry s (GetCanonicalName cccid) \<noteq> None"
  then show "Launch ex cs cccid spec s = (None, s)"
    by (auto simp add: Launch_registered)
next
  assume "registry s (GetCanonicalName cccid) = None \<and>
      Lifecycle_ChaincodeContainerInfo cs (ChainID cccid)
        (ChaincodeSpec_Name ex (GetChaincodeSpec spec)) = (ci, Some err)"
  then show "Launch ex cs cccid spec s =
          (Some (errors_Wrapf err
             (''[channel '' @ ChainID cccid @ ''] failed to get chaincode container info for '' @
                ChaincodeSpec_Name ex (GetChaincodeSpec spec))),
           s\<lparr>calls := calls s @
               [Call_Lifecycle_ChaincodeContainerInfo (ChainID cccid)
                  (ChaincodeSpec_Name ex (GetChaincodeSpec spec))]\<rparr>)"
    using Launch_resolution_failure [of s cccid cs ex spec ci err] by blast
next
  assume "registry s (GetCanonicalName cccid) = None \<and>
      Lifecycle_ChaincodeContainerInfo cs (ChainID cccid)
        (ChaincodeSpec_Name ex (GetChaincodeSpec spec)) = (ci, None)"
  then show "Launch ex cs cccid spec s =
          (fst (Launcher_Launch cs ci (registry s)),
           s\<lparr>registry := snd (Launcher_Launch cs ci (registry s)),
             calls := calls s @
               [Call_Lifecycle_ChaincodeContainerInfo (ChainID cccid)
                  (ChaincodeSpec_Name ex (GetChaincodeSpec spec)),
                Call_Launcher_Launch ci]\<rparr>)"
    using Launch_resolved [of s cccid cs ex spec ci] by blast
next
  assume "GetChaincodeSpec spec = Some chaincodeSpec \<and>
      Launch ex cs cccid spec s = (None, s1) \<and>
      Input chaincodeSpec = Some input \<and>
      proto_Marshal ex (input\<lparr>Decorations := ProposalDecorations cccid\<rparr>) = Inr payload \<and>
      registry s1 (GetCanonicalName cccid) = Some h"
  then show "Invoke ex cs ctxt cccid spec s =
          (case Handler_Execute h ctxt cccid
                  \<lparr>Type = ChaincodeMessage_TRANSACTION, Payload = payload, Txid = TxID cccid,
                   ChannelId = ChainID cccid, ChaincodeEvent = None\<rparr> (ExecuteTimeout cs) of
             (ccresp, Some err) \<Rightarrow> Return (None, Some (errors_WithMessage err ''error sending''))
           | (ccresp, None) \<Rightarrow> Return (ccresp, None),
           s1\<lparr>calls := calls s1 @
               [Call_Handler_Execute (GetCanonicalName cccid) ctxt cccid
                  \<lparr>Type = ChaincodeMessage_TRANSACTION, Payload = payload, Txid = TxID cccid,
                   ChannelId = ChainID cccid, ChaincodeEvent = None\<rparr> (ExecuteTimeout cs)]\<rparr>)"
    by (simp add: Invoke_def createCCMessage_def execute_registered Let_def
          split: prod.splits option.splits)
qed

theorem steady_path_resolves_through_lifecycle_witness:
  "Launch stub_externals (stub_cs (registering_launcher
        (stub_handler (Some (reply ChaincodeMessage_COMPLETED ''ok'' None)) None)))
     token_cccid
     (Some \<lparr>InvocationChaincodeSpec = Some (token_spec\<lparr>ChaincodeId_of := None\<rparr>)\<rparr>) empty_state =
     (Some (withMessage (fundamental ''chaincode not found'')
        ''[channel ch1] failed to get chaincode container info for ''),
      \<lparr>registry = Map.empty, calls = [Call_Lifecycle_ChaincodeContainerInfo ''ch1'' []]\<rparr>)
   \<and> Launch stub_externals (stub_cs (registering_launcher
        (stub_handler (Some (reply ChaincodeMessage_COMPLETED ''ok'' None)) None)))
     token_cccid (Some \<lparr>InvocationChaincodeSpec = Some token_spec\<rparr>) empty_state =
     (None,
      \<lparr>registry = [''token-contract:1'' \<mapsto>
          stub_handler (Some (reply ChaincodeMessage_COMPLETED ''ok'' None)) None],
       calls = [Call_Lifecycle_ChaincodeContainerInfo ''ch1'' ''token-contract'',
          Call_Launcher_Launch
            (Some \<lparr>InfoName = ''token-contract'', InfoVersion = ''1'', InfoType = ''GOLANG'',
                   InfoCodePackage = []\<rparr>)]\<rparr>)
   \<and> Launch stub_externals (stub_cs (registering_launcher
        (stub_handler (Some (reply ChaincodeMessage_COMPLETED ''ok'' None)) None)))
     token_cccid (Some \<lparr>InvocationChaincodeSpec = Some token_spec\<rparr>)
     (running_state (stub_handler None None)) =
     (None, running_state (stub_handler None None))
   \<and> Invoke stub_externals (stub_cs (registering_launcher
        (stub_handler (Some (reply ChaincodeMessage_COMPLETED ''ok'' None)) None)))
     (Context 0) token_cccid (Some \<lparr>InvocationChaincodeSpec = Some token_spec\<rparr>) empty_state =
     (Return (Some (reply ChaincodeMessage_COMPLETED ''ok'' None), None),
      \<lparr>registry = [''token-contract:1'' \<mapsto>
          stub_handler (Some (reply ChaincodeMessage_COMPLETED ''ok'' None)) None],
       calls = [Call_Lifecycle_ChaincodeContainerInfo ''ch1'' ''token-contract'',
          Call_Launcher_Launch
            (Some \<lparr>InfoName = ''token-contract'', InfoVersion = ''1'', InfoType = ''GOLANG'',
                   InfoCodePackage = []\<rparr>),
          Call_Handler_Execute ''token-contract:1'' (Context 0) token_cccid
            \<lparr>Type = ChaincodeMessage_TRANSACTION, Payload = ''transfer!'', Txid = ''t1'',
             ChannelId = ''ch1'', ChaincodeEvent = None\<rparr> 30]\<rparr>)"
proof -
  let ?h = "stub_handler (Some (reply ChaincodeMessage_COMPLETED ''ok'' None)) None"
  let ?cs = "stub_cs (registering_launcher ?h)"
  let ?spec = "Some \<lparr>InvocationChaincodeSpec = Some token_spec\<rparr>"
  let ?anon = "Some \<lparr>InvocationChaincodeSpec = Some (token_spec\<lparr>ChaincodeId_of := None\<rparr>)\<rparr>"
  let ?ci = "Some \<lparr>InfoName = ''token-contract'', InfoVersion = ''1'', InfoType = ''GOLANG'',
                   InfoCodePackage = []\<rparr>"
  let ?s1 = "\<lparr>registry = [''token-contract:1'' \<mapsto> ?h],
     calls = [Call_Lifecycle_ChaincodeContainerInfo ''ch1'' ''token-contract'',
        Call_Launcher_Launch ?ci]\<rparr>"
  let ?input = "\<lparr>Args = [''transfer''], Decorations = Map.empty\<rparr>"
  note w = steady_path_resolves_through_lifecycle
    [where ex = stub_externals and cs = ?cs and cccid = token_cccid and spec = ?spec
       and s = empty_state and ctxt = "Context 0" and ?s1.0 = ?s1 and chaincodeSpec = token_spec
       and input = ?input and payload = "''transfer!''" and h = ?h and ci = ?ci]
  note f = steady_path_resolves_through_lifecycle
    [where ex = stub_externals and cs = ?cs and cccid = token_cccid and spec = ?anon
       and s = empty_state and ci = None and err = "fundamental ''chaincode not found''"]
  note p = steady_path_resolves_through_lifecycle
    [where ex = stub_externals and cs = ?cs and cccid = token_cccid and spec = ?spec
       and s = "running_state (stub_handler None None)"]
  have r: "registry empty_state (GetCanonicalName token_cccid) = None"
    by (simp add: empty_state_def)
  have r1: "registry ?s1 (GetCanonicalName token_cccid) = Some ?h"
    by (simp add: GetCanonicalName_def token_cccid_def)
  have r2: "registry (running_state (stub_handler None None)) (GetCanonicalName token_cccid)
      \<noteq> None"
    by (simp add: GetCanonicalName_def token_cccid_def running_state_def)
  have n: "ChaincodeSpec_Name stub_externals (GetChaincodeSpec ?spec) = ''token-contract''"
    by (simp add: stub_externals_def GetChaincodeSpec_def token_spec_def)
  have n': "ChaincodeSpec_Name stub_externals (GetChaincodeSpec ?anon) = []"
    by (simp add: stub_externals_def GetChaincodeSpec_def token_spec_def)
  have k: "Lifecycle_ChaincodeContainerInfo ?cs (ChainID token_cccid)
      (ChaincodeSpec_Name stub_externals (GetChaincodeSpec ?spec)) = (?ci, None)"
    unfolding n by (simp add: stub_cs_def stub_lifecycle_def)
  have k': "Lifecycle_ChaincodeContainerInfo ?cs (ChainID token_cccid)
      (ChaincodeSpec_Name stub_externals (GetChaincodeSpec ?anon)) =
      (None, Some (fundamental ''chaincode not found''))"
    unfolding n' by (simp add: stub_cs_def stub_lifecycle_def)
  have g: "GetChaincodeSpec ?spec = Some token_spec"
    by (simp add: GetChaincodeSpec_def)
  have i: "Input token_spec = Some ?input"
    by (simp add: token_spec_def)
  have m: "proto_Marshal stub_externals (?input\<lparr>Decorations := ProposalDecorations token_cccid\<rparr>)
      = Inr ''transfer!''"
    by (simp add: stub_externals_def token_cccid_def)
  have "Launch stub_externals ?cs token_cccid ?anon empty_state =
      (Some (errors_Wrapf (fundamental ''chaincode not found'')
             (''[channel '' @ ChainID token_cccid @
              ''] failed to get chaincode container info for '' @
                ChaincodeSpec_Name stub_externals (GetChaincodeSpec ?anon))),
           empty_state\<lparr>calls := calls empty_state @
               [Call_Lifecycle_ChaincodeContainerInfo (ChainID token_cccid)
                  (ChaincodeSpec_Name stub_externals (GetChaincodeSpec ?anon))]\<rparr>)"
    using f r k' by blast
  then have c1: "Launch stub_externals ?cs token_cccid ?anon empty_state =
     (Some (withMessage (fundamental ''chaincode not found'')
        ''[channel ch1] failed to get chaincode container info for ''),
      \<lparr>registry = Map.empty, calls = [Call_Lifecycle_ChaincodeContainerInfo ''ch1'' []]\<rparr>)"
    unfolding n' by (simp add: errors_Wrapf_def token_cccid_def empty_state_def)
  have "Launch stub_externals ?cs token_cccid ?spec empty_state =
          (fst (Launcher_Launch ?cs ?ci (registry empty_state)),
           empty_state\<lparr>registry := snd (Launcher_Launch ?cs ?ci (registry empty_state)),
             calls := calls empty_state @
               [Call_Lifecycle_ChaincodeContainerInfo (ChainID token_cccid)
                  (ChaincodeSpec_Name stub_externals (GetChaincodeSpec ?spec)),
                Call_Launcher_Launch ?ci]\<rparr>)"
    using w r k by blast
  then have c2: "Launch stub_externals ?cs token_cccid ?spec empty_state = (None, ?s1)"
    unfolding n
    by (simp add: stub_cs_def registering_launcher_def token_cccid_def empty_state_def)
  have c3: "Launch stub_externals ?cs token_cccid ?spec (running_state (stub_handler None None)) =
     (None, running_state (stub_handler None None))"
    using p r2 by blast
  have "Invoke stub_externals ?cs (Context 0) token_cccid ?spec empty_state =
      (case Handler_Execute ?h (Context 0) token_cccid
                  \<lparr>Type = ChaincodeMessage_TRANSACTION, Payload = ''transfer!'',
                   Txid = TxID token_cccid,
                   ChannelId = ChainID token_cccid, ChaincodeEvent = None\<rparr> (ExecuteTimeout ?cs) of
             (ccresp, Some err) \<Rightarrow> Return (None, Some (errors_WithMessage err ''error sending''))
           | (ccresp, None) \<Rightarrow> Return (ccresp, None),
           ?s1\<lparr>calls := calls ?s1 @
               [Call_Handler_Execute (GetCanonicalName token_cccid) (Context 0) token_cccid
                  \<lparr>Type = ChaincodeMessage_TRANSACTION, Payload = ''transfer!'',
                   Txid = TxID token_cccid,
                   ChannelId = ChainID token_cccid, ChaincodeEvent = None\<rparr>
                  (ExecuteTimeout ?cs)]\<rparr>)"
    using w c2 g i m r1 by blast
  then have c4: "Invoke stub_externals ?cs (Context 0) token_cccid ?spec empty_state =
     (Return (Some (reply ChaincodeMessage_COMPLETED ''ok'' None), None),
      \<lparr>registry = [''token-contract:1'' \<mapsto> ?h],
       calls = [Call_Lifecycle_ChaincodeContainerInfo ''ch1'' ''token-contract'',
          Call_Launcher_Launch ?ci,
          Call_Handler_Execute ''token-contract:1'' (Context 0) token_cccid
            \<lparr>Type = ChaincodeMessage_TRANSACTION, Payload = ''transfer!'', Txid = ''t1'',
             ChannelId = ''ch1'', ChaincodeEvent = None\<rparr> 30]\<rparr>)"
    by (simp add: stub_handler_def stub_cs_def GetCanonicalName_def token_cccid_def)
  from c1 c2 c3 c4 show ?thesis
    by (intro conjI)
qed


subsection \<open>C10: the order of the nil-spec check\<close>

text \<open>
  C10. With a nil chaincode spec, \<open>Invoke\<close> returns the error \<open>chaincode spec is nil\<close>
  and leaves the state as it was: nothing is launched. \<open>InvokeInit\<close> launches first: with a
  nil chaincode spec in the deployment spec, no handler registered and a launcher that
  succeeds, it returns the same error after the launcher has been called.
\<close>

theorem nil_spec_check_order_differs:
  "(GetChaincodeSpec spec = None \<longrightarrow>
      Invoke ex cs ctxt cccid spec s =
        (Return (None, Some (errors_New ''chaincode spec is nil'')), s))
   \<and> (GetChaincodeSpec_deployment dspec = None \<and>
      registry s (GetCanonicalName cccid) = None \<and>
      Launcher_Launch cs
        (Some ((DeploymentSpecToChaincodeContainerInfo ex dspec)\<lparr>InfoVersion := Version cccid\<rparr>))
        (registry s) = (None, registry') \<longrightarrow>
      InvokeInit ex cs ctxt cccid dspec s =
        (Return (None, Some (errors_New ''chaincode spec is nil'')),
         s\<lparr>registry := registry',
           calls := calls s @
             [Call_Launcher_Launch
               (Some ((DeploymentSpecToChaincodeContainerInfo ex dspec)
                  \<lparr>InfoVersion := Version cccid\<rparr>))]\<rparr>))"
proof (intro conjI impI)
  assume "GetChaincodeSpec spec = None"
  then show "Invoke ex cs ctxt cccid spec s =
        (Return (None, Some (errors_New ''chaincode spec is nil'')), s)"
    by (simp add: Invoke_def)
next
  assume a: "GetChaincodeSpec_deployment dspec = None \<and>
      registry s (GetCanonicalName cccid) = None \<and>
      Launcher_Launch cs
        (Some ((DeploymentSpecToChaincodeContainerInfo ex dspec)\<lparr>InfoVersion := Version cccid\<rparr>))
        (registry s) = (None, registry')"
  then have "LaunchInit ex cs cccid dspec s =
      (None, s\<lparr>registry := registry',
           calls := calls s @
             [Call_Launcher_Launch
               (Some ((DeploymentSpecToChaincodeContainerInfo ex dspec)
                  \<lparr>InfoVersion := Version cccid\<rparr>))]\<rparr>)"
    by (simp add: LaunchInit_unregistered)
  with a show "InvokeInit ex cs ctxt cccid dspec s =
        (Return (None, Some (errors_New ''chaincode spec is nil'')),
         s\<lparr>registry := registry',
           calls := calls s @
             [Call_Launcher_Launch
               (Some ((DeploymentSpecToChaincodeContainerInfo ex dspec)
                  \<lparr>InfoVersion := Version cccid\<rparr>))]\<rparr>)"
    by (simp add: InvokeInit_def)
qed

theorem nil_spec_check_order_differs_witness:
  "Invoke stub_externals (stub_cs (registering_launcher (stub_handler None None))) (Context 0)
     token_cccid (Some \<lparr>InvocationChaincodeSpec = None\<rparr>) empty_state =
     (Return (None, Some (fundamental ''chaincode spec is nil'')), empty_state)
   \<and> InvokeInit stub_externals (stub_cs (registering_launcher (stub_handler None None)))
     (Context 0) token_cccid (Some \<lparr>DeploymentChaincodeSpec = None, CodePackage = []\<rparr>)
     empty_state =
     (Return (None, Some (fundamental ''chaincode spec is nil'')),
      \<lparr>registry = ['':1'' \<mapsto> stub_handler None None],
       calls = [Call_Launcher_Launch
          (Some \<lparr>InfoName = [], InfoVersion = ''1'', InfoType = [],
                 InfoCodePackage = []\<rparr>)]\<rparr>)"
proof -
  let ?h = "stub_handler None None"
  let ?cs = "stub_cs (registering_launcher ?h)"
  let ?spec = "Some \<lparr>InvocationChaincodeSpec = None\<rparr>"
  let ?dspec = "Some \<lparr>DeploymentChaincodeSpec = None, CodePackage = []\<rparr>"
  note w = nil_spec_check_order_differs
    [where ex = stub_externals and cs = ?cs and cccid = token_cccid and spec = ?spec
       and dspec = ?dspec and s = empty_state and ctxt = "Context 0"
       and registry' = "['':1'' \<mapsto> ?h]"]
  have g: "GetChaincodeSpec ?spec = None"
    by (simp add: GetChaincodeSpec_def)
  have g': "GetChaincodeSpec_deployment ?dspec = None"
    by (simp add: GetChaincodeSpec_deployment_def)
  have r: "registry empty_state (GetCanonicalName token_cccid) = None"
    by (simp add: empty_state_def)
  have d: "(DeploymentSpecToChaincodeContainerInfo stub_externals ?dspec)
      \<lparr>InfoVersion := Version token_cccid\<rparr> =
      \<lparr>InfoName = [], InfoVersion = ''1'', InfoType = [], InfoCodePackage = []\<rparr>"
    by (simp add: stub_externals_def GetChaincodeSpec_deployment_def token_cccid_def)
  have l: "Launcher_Launch ?cs
        (Some ((DeploymentSpecToChaincodeContainerInfo stub_externals ?dspec)
           \<lparr>InfoVersion := Version token_cccid\<rparr>))
        (registry empty_state) = (None, ['':1'' \<mapsto> ?h])"
    unfolding d by (simp add: stub_cs_def registering_launcher_def empty_state_def)
  have c1: "Invoke stub_externals ?cs (Context 0) token_cccid ?spec empty_state =
     (Return (None, Some (fundamental ''chaincode spec is nil'')), empty_state)"
    using w g by (simp add: errors_New_def)
  have "InvokeInit stub_externals ?cs (Context 0) token_cccid ?dspec empty_state =
        (Return (None, Some (errors_New ''chaincode spec is nil'')),
         empty_state\<lparr>registry := ['':1'' \<mapsto> ?h],
           calls := calls empty_state @
             [Call_Launcher_Launch
               (Some ((DeploymentSpecToChaincodeContainerInfo stub_externals ?dspec)
                  \<lparr>InfoVersion := Version token_cccid\<rparr>))]\<rparr>)"
    using w g' r l by blast
  then have c2: "InvokeInit stub_externals ?cs (Context 0) token_cccid ?dspec empty_state =
     (Return (None, Some (fundamental ''chaincode spec is nil'')),
      \<lparr>registry = ['':1'' \<mapsto> ?h],
       calls = [Call_Launcher_Launch
          (Some \<lparr>InfoName = [], InfoVersion = ''1'', InfoType = [],
                 InfoCodePackage = []\<rparr>)]\<rparr>)"
    unfolding d by (simp add: errors_New_def empty_state_def)
  from c1 c2 show ?thesis
    by (intro conjI)
qed

lemma contains_Wrapf: "strings_Contains (Error (errors_Wrapf e0 (p @ x))) x"
  by (simp add: errors_Wrapf_def strings_Contains_def)

lemma contains_Errorf: "strings_Contains (Error (errors_Errorf (p @ x))) x"
  by (simp add: errors_Errorf_def strings_Contains_def)

lemma pcer_error_text:
  assumes "processChaincodeExecutionResult ex cccid resp err = (r, ev, Some e)"
  shows "strings_Contains (Error e) (TxID cccid) \<or>
     (\<exists>m. resp = Some m \<and> err = None \<and> Type m = ChaincodeMessage_ERROR \<and>
        e = errors_Errorf (''transaction returned with failure: '' @ Payload m))"
proof (cases err)
  case (Some e0)
  with assms have "e = errors_Wrapf e0 (''failed to execute transaction '' @ TxID cccid)"
    by (simp add: pcer_invoke_error)
  then show ?thesis
    by (simp only: contains_Wrapf simp_thms)
next
  case None
  note noerr = None
  show ?thesis
  proof (cases resp)
    case None
    with assms noerr have "e = errors_Errorf (''nil response from transaction '' @ TxID cccid)"
      by (simp add: pcer_nil_response)
    then show ?thesis
      by (simp only: contains_Errorf simp_thms)
  next
    case (Some m)
    consider (completed) "Type m = ChaincodeMessage_COMPLETED"
      | (error) "Type m = ChaincodeMessage_ERROR"
      | (other) "Type m \<noteq> ChaincodeMessage_COMPLETED" "Type m \<noteq> ChaincodeMessage_ERROR"
      by blast
    then show ?thesis
    proof cases
      case completed
      with assms noerr Some obtain ue where
        "e = errors_Wrapf ue (''failed to unmarshal response for transaction '' @ TxID cccid)"
        by (auto simp add: pcer_completed split: sum.splits)
      then show ?thesis
        by (simp only: contains_Wrapf simp_thms)
    next
      case error
      with assms noerr Some
      have "e = errors_Errorf (''transaction returned with failure: '' @ Payload m)"
        by (simp add: pcer_error)
      with noerr Some error show ?thesis
        by blast
    next
      case other
      with assms noerr Some
      have "e = errors_Errorf ((''unexpected response type '' @ fmt_d (Type m) @
          '' for transaction '') @ TxID cccid)"
        by (simp add: pcer_unexpected)
      then show ?thesis
        by (simp only: contains_Errorf simp_thms)
    qed
  qed
qed

lemma Execute_cases:
  "Execute ex cs ctxt cccid spec s = (Return x, s') \<Longrightarrow>
   \<exists>resp err. Invoke ex cs ctxt cccid spec s = (Return (resp, err), s') \<and>
      x = processChaincodeExecutionResult ex cccid resp err"
  by (auto simp add: Execute_def split: prod.splits go.splits)

lemma ExecuteInit_cases:
  "ExecuteInit ex cs ctxt cccid spec s = (Return x, s') \<Longrightarrow>
   \<exists>resp err. InvokeInit ex cs ctxt cccid spec s = (Return (resp, err), s') \<and>
      x = processChaincodeExecutionResult ex cccid resp err"
  by (auto simp add: ExecuteInit_def split: prod.splits go.splits)

lemma Invoke_sends:
  "GetChaincodeSpec spec = Some chaincodeSpec \<Longrightarrow>
   Launch ex cs cccid spec s = (None, s1) \<Longrightarrow>
   Input chaincodeSpec = Some input \<Longrightarrow>
   proto_Marshal ex (input\<lparr>Decorations := ProposalDecorations cccid\<rparr>) = Inr payload \<Longrightarrow>
   registry s1 (GetCanonicalName cccid) = Some h \<Longrightarrow>
   Invoke ex cs ctxt cccid spec s =
     (case Handler_Execute h ctxt cccid
             \<lparr>Type = ChaincodeMessage_TRANSACTION, Payload = payload, Txid = TxID cccid,
              ChannelId = ChainID cccid, ChaincodeEvent = None\<rparr> (ExecuteTimeout cs) of
        (ccresp, Some err) \<Rightarrow> Return (None, Some (errors_WithMessage err ''error sending''))
      | (ccresp, None) \<Rightarrow> Return (ccresp, None),
      s1\<lparr>calls := calls s1 @
          [Call_Handler_Execute (GetCanonicalName cccid) ctxt cccid
             \<lparr>Type = ChaincodeMessage_TRANSACTION, Payload = payload, Txid = TxID cccid,
              ChannelId = ChainID cccid, ChaincodeEvent = None\<rparr> (ExecuteTimeout cs)]\<rparr>)"
  by (simp add: Invoke_def createCCMessage_def execute_registered Let_def
        split: prod.splits option.splits)

lemma InvokeInit_sends:
  "LaunchInit ex cs cccid dspec s = (None, s1) \<Longrightarrow>
   GetChaincodeSpec_deployment dspec = Some chaincodeSpec \<Longrightarrow>
   Input chaincodeSpec = Some input \<Longrightarrow>
   proto_Marshal ex (input\<lparr>Decorations := ProposalDecorations cccid\<rparr>) = Inr payload \<Longrightarrow>
   registry s1 (GetCanonicalName cccid) = Some h \<Longrightarrow>
   InvokeInit ex cs ctxt cccid dspec s =
     (case Handler_Execute h ctxt cccid
             \<lparr>Type = ChaincodeMessage_INIT, Payload = payload, Txid = TxID cccid,
              ChannelId = ChainID cccid, ChaincodeEvent = None\<rparr> (ExecuteTimeout cs) of
        (ccresp, Some err) \<Rightarrow> Return (None, Some (errors_WithMessage err ''error sending''))
      | (ccresp, None) \<Rightarrow> Return (ccresp, None),
      s1\<lparr>calls := calls s1 @
          [Call_Handler_Execute (GetCanonicalName cccid) ctxt cccid
             \<lparr>Type = ChaincodeMessage_INIT, Payload = payload, Txid = TxID cccid,
              ChannelId = ChainID cccid, ChaincodeEvent = None\<rparr> (ExecuteTimeout cs)]\<rparr>)"
  by (simp add: InvokeInit_def createCCMessage_def execute_registered Let_def
        split: prod.splits option.splits)

lemma Execute_of_Invoke_error:
  "Invoke ex cs ctxt cccid spec s = (Return (resp, Some e1), s') \<Longrightarrow>
   Execute ex cs ctxt cccid spec s =
     (Return (None, None,
        Some (errors_Wrapf e1 (''failed to execute transaction '' @ TxID cccid))), s')"
  by (simp only: Execute_of_Invoke pcer_invoke_error)

lemma ExecuteInit_of_InvokeInit_error:
  "InvokeInit ex cs ctxt cccid dspec s = (Return (resp, Some e1), s') \<Longrightarrow>
   ExecuteInit ex cs ctxt cccid dspec s =
     (Return (None, None,
        Some (errors_Wrapf e1 (''failed to execute transaction '' @ TxID cccid))), s')"
  by (simp only: ExecuteInit_of_InvokeInit pcer_invoke_error)

lemma Execute_send_failure:
  assumes "GetChaincodeSpec spec = Some chaincodeSpec"
      and "Launch ex cs cccid spec s = (None, s1)"
      and "Input chaincodeSpec = Some input"
      and "proto_Marshal ex (input\<lparr>Decorations := ProposalDecorations cccid\<rparr>) = Inr payload"
      and "registry s1 (GetCanonicalName cccid) = Some h"
      and "Handler_Execute h ctxt cccid
             \<lparr>Type = ChaincodeMessage_TRANSACTION, Payload = payload, Txid = TxID cccid,
              ChannelId = ChainID cccid, ChaincodeEvent = None\<rparr> (ExecuteTimeout cs) =
           (ccresp, Some e0)"
  shows "Execute ex cs ctxt cccid spec s =
     (Return (None, None,
        Some (errors_Wrapf (errors_WithMessage e0 ''error sending'')
           (''failed to execute transaction '' @ TxID cccid))),
      s1\<lparr>calls := calls s1 @
          [Call_Handler_Execute (GetCanonicalName cccid) ctxt cccid
             \<lparr>Type = ChaincodeMessage_TRANSACTION, Payload = payload, Txid = TxID cccid,
              ChannelId = ChainID cccid, ChaincodeEvent = None\<rparr> (ExecuteTimeout cs)]\<rparr>)"
proof -
  have "Invoke ex cs ctxt cccid spec s =
     (Return (None, Some (errors_WithMessage e0 ''error sending'')),
      s1\<lparr>calls := calls s1 @
          [Call_Handler_Execute (GetCanonicalName cccid) ctxt cccid
             \<lparr>Type = ChaincodeMessage_TRANSACTION, Payload = payload, Txid = TxID cccid,
              ChannelId = ChainID cccid, ChaincodeEvent = None\<rparr> (ExecuteTimeout cs)]\<rparr>)"
    using Invoke_sends [OF assms(1-5), of ctxt] assms(6) by simp
  then show ?thesis
    by (rule Execute_of_Invoke_error)
qed

lemma ExecuteInit_send_failure:
  assumes "LaunchInit ex cs cccid dspec s = (None, s1)"
      and "GetChaincodeSpec_deployment dspec = Some chaincodeSpec"
      and "Input chaincodeSpec = Some input"
      and "proto_Marshal ex (input\<lparr>Decorations := ProposalDecorations cccid\<rparr>) = Inr payload"
      and "registry s1 (GetCanonicalName cccid) = Some h"
      and "Handler_Execute h ctxt cccid
             \<lparr>Type = ChaincodeMessage_INIT, Payload = payload, Txid = TxID cccid,
              ChannelId = ChainID cccid, ChaincodeEvent = None\<rparr> (ExecuteTimeout cs) =
           (ccresp, Some e0)"
  shows "ExecuteInit ex cs ctxt cccid dspec s =
     (Return (None, None,
        Some (errors_Wrapf (errors_WithMessage e0 ''error sending'')
           (''failed to execute transaction '' @ TxID cccid))),
      s1\<lparr>calls := calls s1 @
          [Call_Handler_Execute (GetCanonicalName cccid) ctxt cccid
             \<lparr>Type = ChaincodeMessage_INIT, Payload = payload, Txid = TxID cccid,
              ChannelId = ChainID cccid, ChaincodeEvent = None\<rparr> (ExecuteTimeout cs)]\<rparr>)"
proof -
  have "InvokeInit ex cs ctxt cccid dspec s =
     (Return (None, Some (errors_WithMessage e0 ''error sending'')),
      s1\<lparr>calls := calls s1 @
          [Call_Handler_Execute (GetCanonicalName cccid) ctxt cccid
             \<lparr>Type = ChaincodeMessage_INIT, Payload = payload, Txid = TxID cccid,
              ChannelId = ChainID cccid, ChaincodeEvent = None\<rparr> (ExecuteTimeout cs)]\<rparr>)"
    using InvokeInit_sends [OF assms(1-5), of ctxt] assms(6) by simp
  then show ?thesis
    by (rule ExecuteInit_of_InvokeInit_error)
qed

subsection \<open>C8: the context carried by errors\<close>

text \<open>
  C8, as amended. Every error that \<open>Execute\<close> or \<open>ExecuteInit\<close> returns has the
  transaction id of the context in its text, except the error for a response of type
  ERROR, which is \<open>transaction returned with failure: \<close> followed by the raw payload.
  An error of \<open>Invoke\<close> or \<open>InvokeInit\<close> is returned to the caller wrapped with
  \<open>failed to execute transaction\<close> and the transaction id. In particular, when the
  call of the handler fails, \<open>execute\<close> returns the handler's error with the message
  \<open>error sending\<close>, and \<open>Execute\<close> and \<open>ExecuteInit\<close> return the error whose text
  is \<open>failed to execute transaction\<close>, the transaction id, \<open>error sending\<close> and the
  text of the handler's error.
\<close>

theorem errors_carry_the_transaction_id:
  "(Execute ex cs ctxt cccid spec s = (Return (r, ev, Some e), s') \<longrightarrow>
      strings_Contains (Error e) (TxID cccid) \<or>
      (\<exists>m. Invoke ex cs ctxt cccid spec s = (Return (Some m, None), s') \<and>
         Type m = ChaincodeMessage_ERROR \<and>
         e = errors_Errorf (''transaction returned with failure: '' @ Payload m)))
   \<and> (ExecuteInit ex cs ctxt cccid dspec s = (Return (r, ev, Some e), s') \<longrightarrow>
      strings_Contains (Error e) (TxID cccid) \<or>
      (\<exists>m. InvokeInit ex cs ctxt cccid dspec s = (Return (Some m, None), s') \<and>
         Type m = ChaincodeMessage_ERROR \<and>
         e = errors_Errorf (''transaction returned with failure: '' @ Payload m)))
   \<and> (registry s (GetCanonicalName cccid) = Some h \<and>
      Handler_Execute h ctxt cccid msg (ExecuteTimeout cs) = (ccresp, Some e0) \<longrightarrow>
      fst (execute cs ctxt cccid msg s) = (None, Some (errors_WithMessage e0 ''error sending'')) \<and>
      Error (errors_Wrapf (errors_WithMessage e0 ''error sending'')
         (''failed to execute transaction '' @ TxID cccid)) =
        ''failed to execute transaction '' @ TxID cccid @ '': error sending: '' @ Error e0)
   \<and> (Invoke ex cs ctxt cccid spec s = (Return (resp, Some e1), s') \<longrightarrow>
      Execute ex cs ctxt cccid spec s =
        (Return (None, None,
           Some (errors_Wrapf e1 (''failed to execute transaction '' @ TxID cccid))), s'))
   \<and> (InvokeInit ex cs ctxt cccid dspec s = (Return (resp, Some e1), s') \<longrightarrow>
      ExecuteInit ex cs ctxt cccid dspec s =
        (Return (None, None,
           Some (errors_Wrapf e1 (''failed to execute transaction '' @ TxID cccid))), s'))
   \<and> (GetChaincodeSpec spec = Some chaincodeSpec \<and>
      Launch ex cs cccid spec s = (None, s1) \<and>
      Input chaincodeSpec = Some input \<and>
      proto_Marshal ex (input\<lparr>Decorations := ProposalDecorations cccid\<rparr>) = Inr payload \<and>
      registry s1 (GetCanonicalName cccid) = Some h \<and>
      Handler_Execute h ctxt cccid
        \<lparr>Type = ChaincodeMessage_TRANSACTION, Payload = payload, Txid = TxID cccid,
         ChannelId = ChainID cccid, ChaincodeEvent = None\<rparr> (ExecuteTimeout cs) =
        (ccresp, Some e0) \<longrightarrow>
      Execute ex cs ctxt cccid spec s =
        (Return (None, None,
           Some (errors_Wrapf (errors_WithMessage e0 ''error sending'')
              (''failed to execute transaction '' @ TxID cccid))),
         s1\<lparr>calls := calls s1 @
             [Call_Handler_Execute (GetCanonicalName cccid) ctxt cccid
                \<lparr>Type = ChaincodeMessage_TRANSACTION, Payload = payload, Txid = TxID cccid,
                 ChannelId = ChainID cccid, ChaincodeEvent = None\<rparr> (ExecuteTimeout cs)]\<rparr>))
   \<and> (LaunchInit ex cs cccid dspec s = (None, s1) \<and>
      GetChaincodeSpec_deployment dspec = Some chaincodeSpec \<and>
      Input chaincodeSpec = Some input \<and>
      proto_Marshal ex (input\<lparr>Decorations := ProposalDecorations cccid\<rparr>) = Inr payload \<and>
      registry s1 (GetCanonicalName cccid) = Some h \<and>
      Handler_Execute h ctxt cccid
        \<lparr>Type = ChaincodeMessage_INIT, Payload = payload, Txid = TxID cccid,
         ChannelId = ChainID cccid, ChaincodeEvent = None\<rparr> (ExecuteTimeout cs) =
        (ccresp, Some e0) \<longrightarrow>
      ExecuteInit ex cs ctxt cccid dspec s =
        (Return (None, None,
           Some (errors_Wrapf (errors_WithMessage e0 ''error sending'')
              (''failed to execute transaction '' @ TxID cccid))),
         s1\<lparr>calls := calls s1 @
             [Call_Handler_Execute (GetCanonicalName cccid) ctxt cccid
                \<lparr>Type = ChaincodeMessage_INIT, Payload = payload, Txid = TxID cccid,
                 ChannelId = ChainID cccid, ChaincodeEvent = None\<rparr> (ExecuteTimeout cs)]\<rparr>))"
proof (intro conjI impI)
  assume "Execute ex cs ctxt cccid spec s = (Return (r, ev, Some e), s')"
  then obtain resp err where
    i: "Invoke ex cs ctxt cccid spec s = (Return (resp, err), s')" and
    p: "processChaincodeExecutionResult ex cccid resp err = (r, ev, Some e)"
    by (auto dest!: Execute_cases)
  from pcer_error_text [OF p] i
  show "strings_Contains (Error e) (TxID cccid) \<or>
      (\<exists>m. Invoke ex cs ctxt cccid spec s = (Return (Some m, None), s') \<and>
         Type m = ChaincodeMessage_ERROR \<and>
         e = errors_Errorf (''transaction returned with failure: '' @ Payload m))"
    by blast
next
  assume "ExecuteInit ex cs ctxt cccid dspec s = (Return (r, ev, Some e), s')"
  then obtain resp err where
    i: "InvokeInit ex cs ctxt cccid dspec s = (Return (resp, err), s')" and
    p: "processChaincodeExecutionResult ex cccid resp err = (r, ev, Some e)"
    by (auto dest!: ExecuteInit_cases)
  from pcer_error_text [OF p] i
  show "strings_Contains (Error e) (TxID cccid) \<or>
      (\<exists>m. InvokeInit ex cs ctxt cccid dspec s = (Return (Some m, None), s') \<and>
         Type m = ChaincodeMessage_ERROR \<and>
         e = errors_Errorf (''transaction returned with failure: '' @ Payload m))"
    by blast
next
  assume "registry s (GetCanonicalName cccid) = Some h \<and>
      Handler_Execute h ctxt cccid msg (ExecuteTimeout cs) = (ccresp, Some e0)"
  then show "fst (execute cs ctxt cccid msg s) =
      (None, Some (errors_WithMessage e0 ''error sending''))"
    by (simp add: execute_def Let_def)
next
  show "Error (errors_Wrapf (errors_WithMessage e0 ''error sending'')
         (''failed to execute transaction '' @ TxID cccid)) =
        ''failed to execute transaction '' @ TxID cccid @ '': error sending: '' @ Error e0"
    by (simp add: errors_Wrapf_def errors_WithMessage_def)
next
  assume "Invoke ex cs ctxt cccid spec s = (Return (resp, Some e1), s')"
  then show "Execute ex cs ctxt cccid spec s =
        (Return (None, None,
           Some (errors_Wrapf e1 (''failed to execute transaction '' @ TxID cccid))), s')"
    by (rule Execute_of_Invoke_error)
next
  assume "InvokeInit ex cs ctxt cccid dspec s = (Return (resp, Some e1), s')"
  then show "ExecuteInit ex cs ctxt cccid dspec s =
        (Return (None, None,
           Some (errors_Wrapf e1 (''failed to execute transaction '' @ TxID cccid))), s')"
    by (rule ExecuteInit_of_InvokeInit_error)
next
  assume "GetChaincodeSpec spec = Some chaincodeSpec \<and>
      Launch ex cs cccid spec s = (None, s1) \<and>
      Input chaincodeSpec = Some input \<and>
      proto_Marshal ex (input\<lparr>Decorations := ProposalDecorations cccid\<rparr>) = Inr payload \<and>
      registry s1 (GetCanonicalName cccid) = Some h \<and>
      Handler_Execute h ctxt cccid
        \<lparr>Type = ChaincodeMessage_TRANSACTION, Payload = payload, Txid = TxID cccid,
         ChannelId = ChainID cccid, ChaincodeEvent = None\<rparr> (ExecuteTimeout cs) =
        (ccresp, Some e0)"
  then show "Execute ex cs ctxt cccid spec s =
        (Return (None, None,
           Some (errors_Wrapf (errors_WithMessage e0 ''error sending'')
              (''failed to execute transaction '' @ TxID cccid))),
         s1\<lparr>calls := calls s1 @
             [Call_Handler_Execute (GetCanonicalName cccid) ctxt cccid
                \<lparr>Type = ChaincodeMessage_TRANSACTION, Payload = payload, Txid = TxID cccid,
                 ChannelId = ChainID cccid, ChaincodeEvent = None\<rparr> (ExecuteTimeout cs)]\<rparr>)"
    by (elim conjE) (rule Execute_send_failure)
next
  assume "LaunchInit ex cs cccid dspec s = (None, s1) \<and>
      GetChaincodeSpec_deployment dspec = Some chaincodeSpec \<and>
      Input chaincodeSpec = Some input \<and>
      proto_Marshal ex (input\<lparr>Decorations := ProposalDecorations cccid\<rparr>) = Inr payload \<and>
      registry s1 (GetCanonicalName cccid) = Some h \<and>
      Handler_Execute h ctxt cccid
        \<lparr>Type = ChaincodeMessage_INIT, Payload = payload, Txid = TxID cccid,
         ChannelId = ChainID cccid, ChaincodeEvent = None\<rparr> (ExecuteTimeout cs) =
        (ccresp, Some e0)"
  then show "ExecuteInit ex cs ctxt cccid dspec s =
        (Return (None, None,
           Some (errors_Wrapf (errors_WithMessage e0 ''error sending'')
              (''failed to execute transaction '' @ TxID cccid))),
         s1\<lparr>calls := calls s1 @
             [Call_Handler_Execute (GetCanonicalName cccid) ctxt cccid
                \<lparr>Type = ChaincodeMessage_INIT, Payload = payload, Txid = TxID cccid,
                 ChannelId = ChainID cccid, ChaincodeEvent = None\<rparr> (ExecuteTimeout cs)]\<rparr>)"
    by (elim conjE) (rule ExecuteInit_send_failure)
qed

lemma run_Execute_send_failure:
  "Execute stub_externals (stub_cs failing_launcher) (Context 0) token_cccid
     (Some \<lparr>InvocationChaincodeSpec = Some token_spec\<rparr>)
     (running_state (stub_handler None (Some (fundamental ''timeout'')))) =
   (Return (None, None,
      Some (withMessage (withMessage (fundamental ''timeout'') ''error sending'')
         ''failed to execute transaction t1'')),
    \<lparr>registry = [''token-contract:1'' \<mapsto> stub_handler None (Some (fundamental ''timeout''))],
     calls = [Call_Handler_Execute ''token-contract:1'' (Context 0) token_cccid
        \<lparr>Type = ChaincodeMessage_TRANSACTION, Payload = ''transfer!'', Txid = ''t1'',
         ChannelId = ''ch1'', ChaincodeEvent = None\<rparr> 30]\<rparr>)"
  by (simp add: Execute_def run_Invoke_running)
     (simp add: processChaincodeExecutionResult_def errs token_cccid_def)

lemma run_Execute_remote_failure:
  "Execute stub_externals (stub_cs failing_launcher) (Context 0) token_cccid
     (Some \<lparr>InvocationChaincodeSpec = Some token_spec\<rparr>)
     (running_state (stub_handler
        (Some (reply ChaincodeMessage_ERROR ''insufficient funds'' None)) None)) =
   (Return (None, None,
      Some (fundamental ''transaction returned with failure: insufficient funds'')),
    \<lparr>registry = [''token-contract:1'' \<mapsto> stub_handler
        (Some (reply ChaincodeMessage_ERROR ''insufficient funds'' None)) None],
     calls = [Call_Handler_Execute ''token-contract:1'' (Context 0) token_cccid
        \<lparr>Type = ChaincodeMessage_TRANSACTION, Payload = ''transfer!'', Txid = ''t1'',
         ChannelId = ''ch1'', ChaincodeEvent = None\<rparr> 30]\<rparr>)"
  by (simp add: Execute_def run_Invoke_running)
     (simp add: processChaincodeExecutionResult_def errs token_cccid_def reply_def msg_types)

theorem errors_carry_the_transaction_id_witness:
  "Execute stub_externals (stub_cs failing_launcher) (Context 0) token_cccid
     (Some \<lparr>InvocationChaincodeSpec = Some token_spec\<rparr>)
     (running_state (stub_handler None (Some (fundamental ''timeout'')))) =
   (Return (None, None,
      Some (withMessage (withMessage (fundamental ''timeout'') ''error sending'')
         ''failed to execute transaction t1'')),
    \<lparr>registry = [''token-contract:1'' \<mapsto> stub_handler None (Some (fundamental ''timeout''))],
     calls = [Call_Handler_Execute ''token-contract:1'' (Context 0) token_cccid
        \<lparr>Type = ChaincodeMessage_TRANSACTION, Payload = ''transfer!'', Txid = ''t1'',
         ChannelId = ''ch1'', ChaincodeEvent = None\<rparr> 30]\<rparr>)
   \<and> ExecuteInit stub_externals (stub_cs failing_launcher) (Context 0) token_cccid
     (Some \<lparr>DeploymentChaincodeSpec = Some token_spec, CodePackage = []\<rparr>)
     (running_state (stub_handler None (Some (fundamental ''timeout'')))) =
   (Return (None, None,
      Some (withMessage (withMessage (fundamental ''timeout'') ''error sending'')
         ''failed to execute transaction t1'')),
    \<lparr>registry = [''token-contract:1'' \<mapsto> stub_handler None (Some (fundamental ''timeout''))],
     calls = [Call_Handler_Execute ''token-contract:1'' (Context 0) token_cccid
        \<lparr>Type = ChaincodeMessage_INIT, Payload = ''transfer!'', Txid = ''t1'',
         ChannelId = ''ch1'', ChaincodeEvent = None\<rparr> 30]\<rparr>)
   \<and> strings_Contains
       (Error (withMessage (withMessage (fundamental ''timeout'') ''error sending'')
          ''failed to execute transaction t1'')) ''t1''
   \<and> Error (withMessage (withMessage (fundamental ''timeout'') ''error sending'')
          ''failed to execute transaction t1'') =
       ''failed to execute transaction t1: error sending: timeout''"
proof -
  let ?h = "stub_handler None (Some (fundamental ''timeout''))"
  let ?cs = "stub_cs failing_launcher"
  let ?spec = "Some \<lparr>InvocationChaincodeSpec = Some token_spec\<rparr>"
  let ?dspec = "Some \<lparr>DeploymentChaincodeSpec = Some token_spec, CodePackage = []\<rparr>"
  let ?input = "\<lparr>Args = [''transfer''], Decorations = Map.empty\<rparr>"
  let ?e = "withMessage (withMessage (fundamental ''timeout'') ''error sending'')
         ''failed to execute transaction t1''"
  let ?s' = "\<lparr>registry = [''token-contract:1'' \<mapsto> ?h],
     calls = [Call_Handler_Execute ''token-contract:1'' (Context 0) token_cccid
        \<lparr>Type = ChaincodeMessage_TRANSACTION, Payload = ''transfer!'', Txid = ''t1'',
         ChannelId = ''ch1'', ChaincodeEvent = None\<rparr> 30]\<rparr>"
  note w = errors_carry_the_transaction_id
    [where ex = stub_externals and cs = ?cs and ctxt = "Context 0" and cccid = token_cccid
       and spec = ?spec and dspec = ?dspec and s = "running_state ?h" and r = None
       and ev = None and e = ?e and s' = ?s' and h = ?h and e0 = "fundamental ''timeout''"
       and ccresp = None and ?s1.0 = "running_state ?h" and chaincodeSpec = token_spec
       and input = ?input and payload = "''transfer!''"]
  have r: "registry (running_state ?h) (GetCanonicalName token_cccid) = Some ?h"
    by (simp add: running_state_def GetCanonicalName_def token_cccid_def)
  have l: "Launch stub_externals ?cs token_cccid ?spec (running_state ?h) =
      (None, running_state ?h)"
    using r by (rule Launch_registered)
  have l': "LaunchInit stub_externals ?cs token_cccid ?dspec (running_state ?h) =
      (None, running_state ?h)"
    using r by (rule LaunchInit_registered)
  have g: "GetChaincodeSpec ?spec = Some token_spec"
    by (simp add: GetChaincodeSpec_def)
  have g': "GetChaincodeSpec_deployment ?dspec = Some token_spec"
    by (simp add: GetChaincodeSpec_deployment_def)
  have i: "Input token_spec = Some ?input"
    by (simp add: token_spec_def)
  have m: "proto_Marshal stub_externals (?input\<lparr>Decorations := ProposalDecorations token_cccid\<rparr>)
      = Inr ''transfer!''"
    by (simp add: stub_externals_def token_cccid_def)
  have f: "Handler_Execute ?h (Context 0) token_cccid
        \<lparr>Type = ChaincodeMessage_TRANSACTION, Payload = ''transfer!'', Txid = TxID token_cccid,
         ChannelId = ChainID token_cccid, ChaincodeEvent = None\<rparr> (ExecuteTimeout ?cs) =
        (None, Some (fundamental ''timeout''))"
    by (simp add: stub_handler_def)
  have f': "Handler_Execute ?h (Context 0) token_cccid
        \<lparr>Type = ChaincodeMessage_INIT, Payload = ''transfer!'', Txid = TxID token_cccid,
         ChannelId = ChainID token_cccid, ChaincodeEvent = None\<rparr> (ExecuteTimeout ?cs) =
        (None, Some (fundamental ''timeout''))"
    by (simp add: stub_handler_def)
  have t: "TxID token_cccid = ''t1''"
    by (simp add: token_cccid_def)
  have "Execute stub_externals ?cs (Context 0) token_cccid ?spec (running_state ?h) =
      (Return (None, None,
         Some (errors_Wrapf (errors_WithMessage (fundamental ''timeout'') ''error sending'')
            (''failed to execute transaction '' @ TxID token_cccid))),
       (running_state ?h)\<lparr>calls := calls (running_state ?h) @
           [Call_Handler_Execute (GetCanonicalName token_cccid) (Context 0) token_cccid
              \<lparr>Type = ChaincodeMessage_TRANSACTION, Payload = ''transfer!'',
               Txid = TxID token_cccid, ChannelId = ChainID token_cccid,
               ChaincodeEvent = None\<rparr> (ExecuteTimeout ?cs)]\<rparr>)"
    using w g l i m r f by blast
  then have x: "Execute stub_externals ?cs (Context 0) token_cccid ?spec (running_state ?h) =
      (Return (None, None, Some ?e), ?s')"
    by (simp add: errs running_state_def GetCanonicalName_def token_cccid_def stub_cs_def)
  have "ExecuteInit stub_externals ?cs (Context 0) token_cccid ?dspec (running_state ?h) =
      (Return (None, None,
         Some (errors_Wrapf (errors_WithMessage (fundamental ''timeout'') ''error sending'')
            (''failed to execute transaction '' @ TxID token_cccid))),
       (running_state ?h)\<lparr>calls := calls (running_state ?h) @
           [Call_Handler_Execute (GetCanonicalName token_cccid) (Context 0) token_cccid
              \<lparr>Type = ChaincodeMessage_INIT, Payload = ''transfer!'',
               Txid = TxID token_cccid, ChannelId = ChainID token_cccid,
               ChaincodeEvent = None\<rparr> (ExecuteTimeout ?cs)]\<rparr>)"
    using w g' l' i m r f' by blast
  then have x': "ExecuteInit stub_externals ?cs (Context 0) token_cccid ?dspec
      (running_state ?h) =
      (Return (None, None, Some ?e),
       \<lparr>registry = [''token-contract:1'' \<mapsto> ?h],
        calls = [Call_Handler_Execute ''token-contract:1'' (Context 0) token_cccid
          \<lparr>Type = ChaincodeMessage_INIT, Payload = ''transfer!'', Txid = ''t1'',
           ChannelId = ''ch1'', ChaincodeEvent = None\<rparr> 30]\<rparr>)"
    by (simp add: errs running_state_def GetCanonicalName_def token_cccid_def stub_cs_def)
  have n: "Invoke stub_externals ?cs (Context 0) token_cccid ?spec (running_state ?h) =
      (Return (None, Some (errors_WithMessage (fundamental ''timeout'') ''error sending'')), ?s')"
    by (simp add: run_Invoke_running)
  have "strings_Contains (Error ?e) (TxID token_cccid) \<or>
      (\<exists>m. Invoke stub_externals ?cs (Context 0) token_cccid ?spec (running_state ?h) =
          (Return (Some m, None), ?s') \<and>
         Type m = ChaincodeMessage_ERROR \<and>
         ?e = errors_Errorf (''transaction returned with failure: '' @ Payload m))"
    using w x by blast
  then have c2: "strings_Contains (Error ?e) ''t1''"
    unfolding n t by simp
  have c3: "Error ?e = ''failed to execute transaction t1: error sending: timeout''"
    by simp
  from x x' c2 c3 show ?thesis
    by (intro conjI)
qed

text \<open>
  C8, as stated, fails: with a handler whose call fails with \<open>timeout\<close>, the error
  returned by \<open>Execute\<close> has neither the canonical name nor the channel id in its text;
  with a handler that answers ERROR, it has none of the canonical name, the transaction id
  and the channel id.
\<close>

theorem errors_lack_name_and_channel_counterexample:
  "Execute stub_externals (stub_cs failing_launcher) (Context 0) token_cccid
     (Some \<lparr>InvocationChaincodeSpec = Some token_spec\<rparr>)
     (running_state (stub_handler None (Some (fundamental ''timeout'')))) =
   (Return (None, None,
      Some (withMessage (withMessage (fundamental ''timeout'') ''error sending'')
         ''failed to execute transaction t1'')),
    \<lparr>registry = [''token-contract:1'' \<mapsto> stub_handler None (Some (fundamental ''timeout''))],
     calls = [Call_Handler_Execute ''token-contract:1'' (Context 0) token_cccid
        \<lparr>Type = ChaincodeMessage_TRANSACTION, Payload = ''transfer!'', Txid = ''t1'',
         ChannelId = ''ch1'', ChaincodeEvent = None\<rparr> 30]\<rparr>)
   \<and> \<not> strings_Contains
       (Error (withMessage (withMessage (fundamental ''timeout'') ''error sending'')
          ''failed to execute transaction t1'')) (GetCanonicalName token_cccid)
   \<and> \<not> strings_Contains
       (Error (withMessage (withMessage (fundamental ''timeout'') ''error sending'')
          ''failed to execute transaction t1'')) (ChainID token_cccid)
   \<and> Execute stub_externals (stub_cs failing_launcher) (Context 0) token_cccid
     (Some \<lparr>InvocationChaincodeSpec = Some token_spec\<rparr>)
     (running_state (stub_handler
        (Some (reply ChaincodeMessage_ERROR ''insufficient funds'' None)) None)) =
   (Return (None, None,
      Some (fundamental ''transaction returned with failure: insufficient funds'')),
    \<lparr>registry = [''token-contract:1'' \<mapsto> stub_handler
        (Some (reply ChaincodeMessage_ERROR ''insufficient funds'' None)) None],
     calls = [Call_Handler_Execute ''token-contract:1'' (Context 0) token_cccid
        \<lparr>Type = ChaincodeMessage_TRANSACTION, Payload = ''transfer!'', Txid = ''t1'',
         ChannelId = ''ch1'', ChaincodeEvent = None\<rparr> 30]\<rparr>)
   \<and> \<not> strings_Contains
       (Error (fundamental ''transaction returned with failure: insufficient funds''))
       (GetCanonicalName token_cccid)
   \<and> \<not> strings_Contains
       (Error (fundamental ''transaction returned with failure: insufficient funds''))
       (TxID token_cccid)
   \<and> \<not> strings_Contains
       (Error (fundamental ''transaction returned with failure: insufficient funds''))
       (ChainID token_cccid)"
proof -
  have n: "GetCanonicalName token_cccid = ''token-contract:1''"
    by (simp add: GetCanonicalName_def token_cccid_def)
  have c: "ChainID token_cccid = ''ch1''"
    by (simp add: token_cccid_def)
  have t: "TxID token_cccid = ''t1''"
    by (simp add: token_cccid_def)
  have a1: "\<not> strings_Contains ''failed to execute transaction t1: error sending: timeout''
      ''token-contract:1''"
    by (simp add: strings_Contains_def sublist_code)
  have a2: "\<not> strings_Contains ''failed to execute transaction t1: error sending: timeout''
      ''ch1''"
    by (simp add: strings_Contains_def sublist_code)
  have b1: "\<not> strings_Contains ''transaction returned with failure: insufficient funds''
      ''token-contract:1''"
    by (simp add: strings_Contains_def sublist_code)
  have b2: "\<not> strings_Contains ''transaction returned with failure: insufficient funds''
      ''t1''"
    by (simp add: strings_Contains_def sublist_code)
  have b3: "\<not> strings_Contains ''transaction returned with failure: insufficient funds''
      ''ch1''"
    by (simp add: strings_Contains_def sublist_code)
  from a1 a2 b1 b2 b3 show ?thesis
    unfolding n c t
    by (simp add: run_Execute_send_failure run_Execute_remote_failure)
qed

end
